theory Spec2Isabelle
  imports
    Complex_Main
    "HOL-Library.Char_ord"
    "HOL-Library.List_Lexorder"
    "HOL-Library.Product_Lexorder"
    "HOL-Library.Multiset"
begin

section \<open>Data model\<close>

text \<open>
  The dashboard script works on one pandas DataFrame. A DataFrame is modelled as the
  list of its rows, in row order; a row is a record with one field per column.
  Calendar dates are triples (year, month, day) compared lexicographically, which is
  the chronological order; strings are compared as Python compares them (character
  by character, a proper prefix first). Numbers of the \<open>sales\<close> column are reals: a
  cell is the number it denotes, and sums and means are exact, except for the per-store
  sums of the composition and the column totals they are compared with, which are
  computed in the machine arithmetic of the column (see below). Every cell of the sheet
  is taken to hold a value (no missing date, store or number), and a date has no time of
  day.
\<close>

type_synonym date = "nat \<times> nat \<times> nat"

definition d_year :: "date \<Rightarrow> nat" where
  "d_year d = fst d"

definition d_month :: "date \<Rightarrow> nat" where
  "d_month d = fst (snd d)"

definition d_day :: "date \<Rightarrow> nat" where
  "d_day d = snd (snd d)"

text \<open>A row of the sheet as \<open>pd.read_csv\<close> and the two coercions deliver it.\<close>

record raw_row =
  raw_date :: date
  raw_store :: string
  raw_sales :: real

text \<open>A row of \<open>df_original\<close>: the three columns and the five derived ones.\<close>

record row =
  date :: date
  store :: string
  sales :: real
  year :: nat
  month_num :: nat
  day_of_week :: string
  month_name :: string
  month_year :: string

type_synonym dataframe = "row list"

subsection \<open>Calendar fields and date formatting\<close>

definition digit :: "nat \<Rightarrow> char" where
  "digit n = ''0123456789'' ! (n mod 10)"

definition pad2 :: "nat \<Rightarrow> string" where
  "pad2 n = [digit (n div 10), digit n]"

definition pad4 :: "nat \<Rightarrow> string" where
  "pad4 n = pad2 (n div 100) @ pad2 (n mod 100)"

text \<open>\<open>dt.to_period('M').astype(str)\<close>: the label \<open>YYYY-MM\<close>.\<close>

definition period_str :: "date \<Rightarrow> string" where
  "period_str d = pad4 (d_year d) @ ''-'' @ pad2 (d_month d)"

text \<open>\<open>dt.strftime('%d/%m/%Y')\<close>.\<close>

definition strftime_dmy :: "date \<Rightarrow> string" where
  "strftime_dmy d = pad2 (d_day d) @ ''/'' @ pad2 (d_month d) @ ''/'' @ pad4 (d_year d)"

definition month_abbrs :: "string list" where
  "month_abbrs = [''Jan'', ''Feb'', ''Mar'', ''Apr'', ''May'', ''Jun'',
                  ''Jul'', ''Aug'', ''Sep'', ''Oct'', ''Nov'', ''Dec'']"

text \<open>\<open>dt.strftime('%b')\<close>; the month of a timestamp is always in 1..12.\<close>

definition strftime_b :: "date \<Rightarrow> string" where
  "strftime_b d = (if 1 \<le> d_month d \<and> d_month d \<le> 12 then month_abbrs ! (d_month d - 1) else [])"

definition is_leap :: "nat \<Rightarrow> bool" where
  "is_leap y = (y mod 4 = 0 \<and> (y mod 100 \<noteq> 0 \<or> y mod 400 = 0))"

definition days_in_month :: "nat \<Rightarrow> nat \<Rightarrow> nat" where
  "days_in_month y m =
     (if m = 2 then (if is_leap y then 29 else 28)
      else if m \<in> {4, 6, 9, 11} then 30 else 31)"

definition days_before_year :: "nat \<Rightarrow> nat" where
  "days_before_year y = (let p = y - 1 in p * 365 + p div 4 - p div 100 + p div 400)"

definition days_before_month :: "nat \<Rightarrow> nat \<Rightarrow> nat" where
  "days_before_month y m = sum_list (map (days_in_month y) [1..<m])"

text \<open>The proleptic Gregorian ordinal of a date; day 1 is 0001-01-01, a Monday.\<close>

definition ymd2ord :: "date \<Rightarrow> nat" where
  "ymd2ord d = days_before_year (d_year d) + days_before_month (d_year d) (d_month d) + d_day d"

definition ordered_days :: "string list" where
  "ordered_days = [''Monday'', ''Tuesday'', ''Wednesday'', ''Thursday'', ''Friday'',
                   ''Saturday'', ''Sunday'']"

text \<open>\<open>dt.day_name()\<close>.\<close>

definition day_name :: "date \<Rightarrow> string" where
  "day_name d = ordered_days ! ((ymd2ord d + 6) mod 7)"

text \<open>
  A date that a pandas timestamp can hold: the year has four digits (the range of
  \<open>datetime64[ns]\<close> lies within 1677 to 2262), the month and the day exist.
\<close>

definition valid_date :: "date \<Rightarrow> bool" where
  "valid_date d \<longleftrightarrow>
     1677 \<le> d_year d \<and> d_year d \<le> 2262 \<and> 1 \<le> d_month d \<and> d_month d \<le> 12 \<and>
     1 \<le> d_day d \<and> d_day d \<le> days_in_month (d_year d) (d_month d)"

subsection \<open>The loader's derived columns\<close>

text \<open>
  \<open>load_data_from_gsheets\<close> after the download: the columns \<open>year\<close>, \<open>month_num\<close>,
  \<open>day_of_week\<close>, \<open>month_name\<close> and \<open>month_year\<close> are computed from \<open>date\<close>.
\<close>

definition derive :: "raw_row \<Rightarrow> row" where
  "derive r =
     \<lparr> date = raw_date r, store = raw_store r, sales = raw_sales r,
       year = d_year (raw_date r),
       month_num = d_month (raw_date r),
       day_of_week = day_name (raw_date r),
       month_name = strftime_b (raw_date r),
       month_year = period_str (raw_date r) \<rparr>"

definition load_data :: "raw_row list \<Rightarrow> dataframe" where
  "load_data rs = map derive rs"

section \<open>Filter layer\<close>

text \<open>\<open>Series.between(left, right)\<close>, inclusive on both sides.\<close>

definition between :: "date \<Rightarrow> date \<Rightarrow> date \<Rightarrow> bool" where
  "between x left right \<longleftrightarrow> left \<le> x \<and> x \<le> right"

definition filter_period :: "dataframe \<Rightarrow> date \<Rightarrow> date \<Rightarrow> dataframe" where
  "filter_period df start_date end_date =
     filter (\<lambda>r. between (date r) start_date end_date) df"

text \<open>\<open>df[df['store'].isin(selected_stores)]\<close>.\<close>

definition filter_stores :: "dataframe \<Rightarrow> string list \<Rightarrow> dataframe" where
  "filter_stores df selected_stores = filter (\<lambda>r. store r \<in> set selected_stores) df"

text \<open>The values the sidebar widgets return.\<close>

record sidebar =
  compare_mode :: bool
  period1 :: "date \<times> date"
  period2 :: "date \<times> date"
  selected_stores :: "string list"

text \<open>The main-period subset: the date filter, then the store filter.\<close>

definition df_period_1 :: "dataframe \<Rightarrow> sidebar \<Rightarrow> dataframe" where
  "df_period_1 df_original ui =
     filter_stores (filter_period df_original (fst (period1 ui)) (snd (period1 ui)))
       (selected_stores ui)"

text \<open>
  The comparison subset: an empty frame unless compare mode is on; the store filter is
  applied only to a non-empty frame.
\<close>

definition df_period_2 :: "dataframe \<Rightarrow> sidebar \<Rightarrow> dataframe" where
  "df_period_2 df_original ui =
     (let df2 = (if compare_mode ui
                 then filter_period df_original (fst (period2 ui)) (snd (period2 ui))
                 else [])
      in if df2 \<noteq> [] then filter_stores df2 (selected_stores ui) else df2)"

section \<open>Aggregation primitives\<close>

text \<open>
  \<open>df.groupby(key)\<close> with the default \<open>sort=True\<close>: one group per distinct key, the
  groups in ascending key order, each group holding its rows in frame order.
\<close>

definition group_keys :: "('r \<Rightarrow> 'k::linorder) \<Rightarrow> 'r list \<Rightarrow> 'k list" where
  "group_keys key df = sort (remdups (map key df))"

definition groupby_agg ::
  "('r \<Rightarrow> 'k::linorder) \<Rightarrow> ('r list \<Rightarrow> 'v) \<Rightarrow> 'r list \<Rightarrow> ('k \<times> 'v) list" where
  "groupby_agg key agg df =
     map (\<lambda>k. (k, agg (filter (\<lambda>r. key r = k) df))) (group_keys key df)"

definition sum_sales :: "dataframe \<Rightarrow> real" where
  "sum_sales df = sum_list (map sales df)"

text \<open>Mean and median of a column; \<open>None\<close> stands for the NaN of an empty column.\<close>

definition mean :: "real list \<Rightarrow> real option" where
  "mean xs = (if xs = [] then None else Some (sum_list xs / real (length xs)))"

definition median :: "real list \<Rightarrow> real option" where
  "median xs =
     (let s = sort xs; n = length s
      in if n = 0 then None
         else if odd n then Some (s ! (n div 2))
         else Some ((s ! (n div 2 - 1) + s ! (n div 2)) / 2))"

definition mean_sales :: "dataframe \<Rightarrow> real option" where
  "mean_sales df = mean (map sales df)"

definition median_sales :: "dataframe \<Rightarrow> real option" where
  "median_sales df = median (map sales df)"

text \<open>What the script shows through \<open>st.info\<close> and \<open>st.warning\<close>.\<close>

datatype message = Info string | Warning string

section \<open>Chart builders\<close>

subsection \<open>Day-of-week heatmap\<close>

text \<open>
  A pivoted frame: row labels, column labels and the cell under a pair of labels,
  \<open>None\<close> for an undefined (NaN) cell.
\<close>

record pivot =
  pv_index :: "string list"
  pv_columns :: "string list"
  pv_cell :: "string \<Rightarrow> string \<Rightarrow> real option"

definition pv_matrix :: "pivot \<Rightarrow> real option list list" where
  "pv_matrix p = map (\<lambda>s. map (pv_cell p s) (pv_columns p)) (pv_index p)"

text \<open>
  \<open>df.pivot_table(values='sales', index='store', columns='day_of_week', aggfunc='mean')\<close>:
  the stores and the day names that occur, each sorted, and the mean of every
  (store, day) group; a pair with no row has no value.
\<close>

definition pivot_table_mean :: "dataframe \<Rightarrow> pivot" where
  "pivot_table_mean df =
     \<lparr> pv_index = group_keys store df,
       pv_columns = group_keys day_of_week df,
       pv_cell = (\<lambda>s d. mean_sales (filter (\<lambda>r. store r = s \<and> day_of_week r = d) df)) \<rparr>"

text \<open>\<open>.reindex(columns=cols)\<close>: exactly the columns \<open>cols\<close>, a new column undefined.\<close>

definition reindex_columns :: "pivot \<Rightarrow> string list \<Rightarrow> pivot" where
  "reindex_columns p cols =
     \<lparr> pv_index = pv_index p,
       pv_columns = cols,
       pv_cell = (\<lambda>s c. if c \<in> set cols \<and> c \<in> set (pv_columns p) then pv_cell p s c
                        else None) \<rparr>"

definition heatmap_data :: "dataframe \<Rightarrow> pivot" where
  "heatmap_data df = reindex_columns (pivot_table_mean df) ordered_days"

record heatmap_fig =
  hm_z :: pivot
  hm_x :: "string list"
  hm_y :: "string list"
  hm_title :: string

definition create_heatmap :: "dataframe \<Rightarrow> string \<Rightarrow> heatmap_fig option \<times> message list" where
  "create_heatmap df title =
     (if df = []
      then (None, [Info (''No data available to generate heatmap: '' @ title)])
      else (let data = heatmap_data df
            in (Some \<lparr> hm_z = data, hm_x = ordered_days, hm_y = pv_index data,
                       hm_title = title \<rparr>,
                [])))"

subsection \<open>Mean and median per store\<close>

definition df_operating_days :: "dataframe \<Rightarrow> dataframe" where
  "df_operating_days df = filter (\<lambda>r. sales r > 0) df"

text \<open>\<open>groupby('store')['sales'].agg(['mean', 'median']).reset_index()\<close>.\<close>

definition stats_table :: "dataframe \<Rightarrow> (string \<times> real option \<times> real option) list" where
  "stats_table df =
     groupby_agg store (\<lambda>g. (mean_sales g, median_sales g)) (df_operating_days df)"

text \<open>\<open>melt\<close>: the rows of the metric \<open>mean\<close>, then those of the metric \<open>median\<close>.\<close>

definition melt ::
  "(string \<times> real option \<times> real option) list \<Rightarrow> (string \<times> string \<times> real option) list" where
  "melt st = map (\<lambda>(s, m, md). (s, ''mean'', m)) st @ map (\<lambda>(s, m, md). (s, ''median'', md)) st"

record bar_fig =
  bar_rows :: "(string \<times> string \<times> real option) list"
  bar_title :: string

definition create_stats_barchart :: "dataframe \<Rightarrow> string \<Rightarrow> bar_fig option \<times> message list" where
  "create_stats_barchart df title =
     (if df = []
      then (None, [Info (''No data available to generate stats chart: '' @ title)])
      else (Some \<lparr> bar_rows = melt (stats_table df), bar_title = title \<rparr>, []))"

section \<open>Executive summary\<close>

subsection \<open>KPIs and their deltas\<close>

definition total_sales :: "dataframe \<Rightarrow> real" where
  "total_sales df = sum_sales df"

text \<open>\<open>df.groupby('date')['sales'].sum().mean()\<close>.\<close>

definition avg_daily_sales :: "dataframe \<Rightarrow> real option" where
  "avg_daily_sales df = mean (map snd (groupby_agg date sum_sales df))"

text \<open>A Python float as far as the deltas need it.\<close>

datatype pyfloat = Finite real | PosInf | NaN

text \<open>
  The expression of \<open>sales_var\<close> and of \<open>avg_sales_var\<close>,
  \<open>((v1 - v2) / v2) * 100 if v2 > 0 else float('inf')\<close>, on two numbers.
\<close>

definition delta :: "real \<Rightarrow> real \<Rightarrow> pyfloat" where
  "delta value1 value2 =
     (if value2 > 0 then Finite (((value1 - value2) / value2) * 100) else PosInf)"

text \<open>
  The same expression on averages that may be NaN (\<open>None\<close>): \<open>NaN > 0\<close> is false, and
  arithmetic with NaN gives NaN.
\<close>

definition delta_avg :: "real option \<Rightarrow> real option \<Rightarrow> pyfloat" where
  "delta_avg a1 a2 =
     (case a2 of
        None \<Rightarrow> PosInf
      | Some v2 \<Rightarrow> (case a1 of
                     None \<Rightarrow> (if v2 > 0 then NaN else PosInf)
                   | Some v1 \<Rightarrow> delta v1 v2))"

datatype kpis =
  Kpi_comparison (kpi_total_1: real) (kpi_total_2: real) (kpi_sales_var: pyfloat)
                 (kpi_avg_1: "real option") (kpi_avg_2: "real option") (kpi_avg_sales_var: pyfloat)
| Kpi_main real "real option"

definition kpi_cards :: "bool \<Rightarrow> dataframe \<Rightarrow> dataframe \<Rightarrow> kpis" where
  "kpi_cards cmp df1 df2 =
     (if cmp \<and> df2 \<noteq> []
      then Kpi_comparison (total_sales df1) (total_sales df2)
             (delta (total_sales df1) (total_sales df2))
             (avg_daily_sales df1) (avg_daily_sales df2)
             (delta_avg (avg_daily_sales df1) (avg_daily_sales df2))
      else Kpi_main (total_sales df1) (avg_daily_sales df1))"

subsection \<open>Monthly trend\<close>

record trend_row =
  tr_month_num :: nat
  tr_month_name :: string
  tr_sales :: real
  tr_period :: string

text \<open>
  \<open>df.groupby(['month_num', 'month_name'])['sales'].sum().reset_index()\<close> with the
  column \<open>Period\<close> set to the label.
\<close>

definition monthly_sales :: "dataframe \<Rightarrow> string \<Rightarrow> trend_row list" where
  "monthly_sales df label =
     map (\<lambda>((n, name), s). \<lparr> tr_month_num = n, tr_month_name = name, tr_sales = s,
                              tr_period = label \<rparr>)
       (groupby_agg (\<lambda>r. (month_num r, month_name r)) sum_sales df)"

text \<open>
  \<open>pd.concat([monthly_sales_1, monthly_sales_2]).sort_values('month_num')\<close>. The sort is
  modelled as a stable one; pandas leaves the order of rows with equal keys open.
\<close>

definition plot_df_compare :: "dataframe \<Rightarrow> dataframe \<Rightarrow> trend_row list" where
  "plot_df_compare df1 df2 =
     sort_key tr_month_num (monthly_sales df1 ''Main'' @ monthly_sales df2 ''Comparison'')"

text \<open>\<open>df_period_1.groupby('month_year')['sales'].sum().reset_index()\<close>.\<close>

definition plot_df_single :: "dataframe \<Rightarrow> (string \<times> real) list" where
  "plot_df_single df1 = groupby_agg month_year sum_sales df1"

datatype trend =
  Monthly_comparison "trend_row list"
| Monthly_evolution "(string \<times> real) list"

definition monthly_trend :: "bool \<Rightarrow> dataframe \<Rightarrow> dataframe \<Rightarrow> trend" where
  "monthly_trend cmp df1 df2 =
     (if cmp \<and> df2 \<noteq> [] then Monthly_comparison (plot_df_compare df1 df2)
      else Monthly_evolution (plot_df_single df1))"

section \<open>Data explorer\<close>

text \<open>
  The format \<open>f"${x:,.0f}"\<close>: the number rounded to an integer, ties to the even one,
  its digits in groups of three, after a dollar sign and the sign of the number.
\<close>

fun digits :: "nat \<Rightarrow> string" where
  "digits n = (if n < 10 then [digit n] else digits (n div 10) @ [digit n])"

fun group3 :: "string \<Rightarrow> string" where
  "group3 ds = (if length ds \<le> 3 then ds
                else group3 (take (length ds - 3) ds) @ '','' @ drop (length ds - 3) ds)"

definition round_half_even :: "real \<Rightarrow> nat" where
  "round_half_even x =
     (let f = nat \<lfloor>x\<rfloor>; d = x - real f
      in if d < 1 / 2 then f else if d > 1 / 2 then f + 1 else if even f then f else f + 1)"

definition fmt_money :: "real \<Rightarrow> string" where
  "fmt_money x = ''$'' @ (if x < 0 then ''-'' else []) @ group3 (digits (round_half_even \<bar>x\<bar>))"

record display_row =
  dr_date :: string
  dr_store :: string
  dr_sales :: string
  dr_day_of_week :: string

text \<open>
  \<open>df_display\<close>: the four columns, \<open>sales\<close> and \<open>date\<close> replaced by their formatted
  strings.
\<close>

definition df_display :: "dataframe \<Rightarrow> display_row list" where
  "df_display df =
     map (\<lambda>r. \<lparr> dr_date = strftime_dmy (date r), dr_store = store r,
                 dr_sales = fmt_money (sales r), dr_day_of_week = day_of_week r \<rparr>) df"

text \<open>
  \<open>sort_values(by=key, ascending=False)\<close>: pandas sorts the reversed frame ascending and
  reverses the result. The sort is modelled as a stable one.
\<close>

definition sort_values_desc :: "('r \<Rightarrow> 'k::linorder) \<Rightarrow> 'r list \<Rightarrow> 'r list" where
  "sort_values_desc key xs = rev (sort_key key (rev xs))"

text \<open>The table of the third tab: \<open>df_display\<close> sorted by its column \<open>date\<close>, descending.\<close>

definition data_explorer :: "dataframe \<Rightarrow> display_row list" where
  "data_explorer df = sort_values_desc dr_date (df_display df)"

section \<open>Machine arithmetic of the sales column\<close>

text \<open>
  Where a property compares two sums exactly, the sums are modelled in the arithmetic of
  the column's dtype. pandas reads the column as \<open>int64\<close> when every cell is written as an
  integer and as \<open>float64\<close> otherwise. An \<open>int64\<close> operation wraps around at 64 bits; a
  \<open>float64\<close> (binary64) operation rounds its exact result to the nearest number with a
  53-bit significand, ties to the even one, and overflows to an infinity. A cell is still
  the real number it denotes; \<open>None\<close> stands for a result that is not a finite number.
\<close>

datatype dtype = Int64 | Float64

definition wrap64 :: "int \<Rightarrow> int" where
  "wrap64 n = (n + 2 ^ 63) mod 2 ^ 64 - 2 ^ 63"

text \<open>The exponent of a positive number: the integer \<open>e\<close> with \<open>2 ^ e \<le> x < 2 ^ (e + 1)\<close>.\<close>

function halvings :: "real \<Rightarrow> nat" where
  "halvings x = (if x < 2 then 0 else Suc (halvings (x / 2)))"
  by pat_completeness auto
termination
proof (relation "measure (\<lambda>x. nat \<lfloor>x\<rfloor>)")
  show "wf (measure (\<lambda>x. nat \<lfloor>x\<rfloor>))" by simp
next
  fix x :: real
  assume "\<not> x < 2"
  then have "\<lfloor>x / 2\<rfloor> < \<lfloor>x\<rfloor>" and "0 < \<lfloor>x\<rfloor>" by linarith+
  then show "(x / 2, x) \<in> measure (\<lambda>x. nat \<lfloor>x\<rfloor>)" by simp
qed

function doublings :: "real \<Rightarrow> nat" where
  "doublings x = (if x \<le> 0 \<or> 1 \<le> x then 0 else Suc (doublings (2 * x)))"
  by pat_completeness auto
termination
proof (relation "measure (\<lambda>x. nat \<lceil>1 / x\<rceil>)")
  show "wf (measure (\<lambda>x. nat \<lceil>1 / x\<rceil>))" by simp
next
  fix x :: real
  assume "\<not> (x \<le> 0 \<or> 1 \<le> x)"
  then have x: "0 < x" "x < 1" by simp_all
  define y where "y = 1 / x"
  from x have y: "1 < y" by (simp add: y_def)
  have half: "1 / (2 * x) = y / 2" by (simp add: y_def)
  from y have c: "1 < \<lceil>y\<rceil>" by (simp add: less_ceiling_iff)
  then have "(2 :: real) \<le> of_int \<lceil>y\<rceil>" by linarith
  moreover have "y \<le> of_int \<lceil>y\<rceil>" by (rule le_of_int_ceiling)
  ultimately have "y / 2 \<le> of_int \<lceil>y\<rceil> - 1" by linarith
  then have "y / 2 \<le> of_int (\<lceil>y\<rceil> - 1)" by simp
  then have "\<lceil>y / 2\<rceil> \<le> \<lceil>y\<rceil> - 1" by (simp only: ceiling_le_iff)
  with c have "\<lceil>y / 2\<rceil> < \<lceil>y\<rceil>" and "0 < \<lceil>y\<rceil>" by simp_all
  then show "(2 * x, x) \<in> measure (\<lambda>x. nat \<lceil>1 / x\<rceil>)"
    unfolding in_measure half by (simp add: y_def)
qed

definition ilog2 :: "real \<Rightarrow> int" where
  "ilog2 x = (if 1 \<le> x then int (halvings x) else - int (doublings x))"

definition pow2 :: "int \<Rightarrow> real" where
  "pow2 e = (if 0 \<le> e then 2 ^ nat e else 1 / 2 ^ nat (- e))"

text \<open>
  Rounding to binary64: the spacing of the doubles around \<open>x\<close> is \<open>2 ^ (e - 52)\<close> for the
  exponent \<open>e\<close> of \<open>x\<close>, and never less than \<open>2 ^ (-1074)\<close>.
\<close>

definition f64_round :: "real \<Rightarrow> real" where
  "f64_round x =
     (if x = 0 then 0
      else let ulp = pow2 (max (ilog2 \<bar>x\<bar>) (- 1022) - 52)
           in sgn x * real (round_half_even (\<bar>x\<bar> / ulp)) * ulp)"

definition f64_max :: real where
  "f64_max = (2 ^ 53 - 1) * 2 ^ 971"

definition f64_result :: "real \<Rightarrow> real option" where
  "f64_result x = (let z = f64_round x in if \<bar>z\<bar> \<le> f64_max then Some z else None)"

definition m_add :: "dtype \<Rightarrow> real \<Rightarrow> real \<Rightarrow> real option" where
  "m_add dt x y =
     (case dt of
        Int64 \<Rightarrow> Some (of_int (wrap64 (\<lfloor>x\<rfloor> + \<lfloor>y\<rfloor>)))
      | Float64 \<Rightarrow> f64_result (x + y))"

definition m_sub :: "dtype \<Rightarrow> real \<Rightarrow> real \<Rightarrow> real option" where
  "m_sub dt x y =
     (case dt of
        Int64 \<Rightarrow> Some (of_int (wrap64 (\<lfloor>x\<rfloor> - \<lfloor>y\<rfloor>)))
      | Float64 \<Rightarrow> f64_result (x - y))"

definition add_opt :: "dtype \<Rightarrow> real option \<Rightarrow> real option \<Rightarrow> real option" where
  "add_opt dt a b =
     (case a of None \<Rightarrow> None | Some x \<Rightarrow> (case b of None \<Rightarrow> None | Some y \<Rightarrow> m_add dt x y))"

text \<open>
  The sum of one group in \<open>groupby(...).sum()\<close>: pandas adds the cells of the group in
  frame order with a running compensation (Kahan summation),
  \<open>y = val - compensation; t = sumx + y; compensation = t - sumx - y; sumx = t\<close>.
\<close>

definition kahan_step :: "dtype \<Rightarrow> (real \<times> real) option \<Rightarrow> real \<Rightarrow> (real \<times> real) option" where
  "kahan_step dt st val =
     (case st of
        None \<Rightarrow> None
      | Some (sumx, compensation) \<Rightarrow>
          (case m_sub dt val compensation of
             None \<Rightarrow> None
           | Some y \<Rightarrow>
               (case m_add dt sumx y of
                  None \<Rightarrow> None
                | Some t \<Rightarrow>
                    (case m_sub dt t sumx of
                       None \<Rightarrow> None
                     | Some d \<Rightarrow>
                         (case m_sub dt d y of
                            None \<Rightarrow> None
                          | Some c \<Rightarrow> Some (t, c))))))"

definition group_sum :: "dtype \<Rightarrow> real list \<Rightarrow> real option" where
  "group_sum dt xs = map_option fst (foldl (kahan_step dt) (Some (0, 0)) xs)"

text \<open>
  The sum of a whole column, \<open>Series.sum()\<close>, is numpy's \<open>add.reduce\<close>. For integers it is
  a loop over the cells. For floats it is the pairwise summation of numpy: a loop for
  fewer than 8 cells, eight interleaved partial sums for up to 128 cells, and otherwise
  the sum of the two halves, the first half a multiple of 8 cells long.
\<close>

definition loop_sum :: "dtype \<Rightarrow> real option \<Rightarrow> real list \<Rightarrow> real option" where
  "loop_sum dt res xs = foldl (\<lambda>r x. add_opt dt r (Some x)) res xs"

function acc8 :: "real option list \<Rightarrow> real list \<Rightarrow> real option list" where
  "acc8 r xs =
     (if length xs < 8 then r
      else acc8 (map2 (add_opt Float64) r (map Some (take 8 xs))) (drop 8 xs))"
  by pat_completeness auto
termination
  by (relation "measure (\<lambda>(r, xs). length xs)") auto

definition block_sum :: "real list \<Rightarrow> real option" where
  "block_sum a =
     (let n = length a;
          r = acc8 (map Some (take 8 a)) (take (n - n mod 8 - 8) (drop 8 a));
          res = add_opt Float64
                  (add_opt Float64 (add_opt Float64 (r ! 0) (r ! 1))
                                   (add_opt Float64 (r ! 2) (r ! 3)))
                  (add_opt Float64 (add_opt Float64 (r ! 4) (r ! 5))
                                   (add_opt Float64 (r ! 6) (r ! 7)))
      in loop_sum Float64 res (drop (n - n mod 8) a))"

function pairwise_sum :: "real list \<Rightarrow> real option" where
  "pairwise_sum a =
     (if length a < 8 then loop_sum Float64 (Some 0) a
      else if length a \<le> 128 then block_sum a
      else (let n2 = length a div 2 - (length a div 2) mod 8
            in add_opt Float64 (pairwise_sum (take n2 a)) (pairwise_sum (drop n2 a))))"
  by pat_completeness auto
termination
  by (relation "measure length") auto

definition series_sum :: "dtype \<Rightarrow> real list \<Rightarrow> real option" where
  "series_sum dt xs =
     (case dt of Int64 \<Rightarrow> loop_sum Int64 (Some 0) xs | Float64 \<Rightarrow> pairwise_sum xs)"

text \<open>The sum of a column of results, not finite as soon as one of them is not.\<close>

definition series_sum_results :: "dtype \<Rightarrow> real option list \<Rightarrow> real option" where
  "series_sum_results dt vs = (case those vs of None \<Rightarrow> None | Some xs \<Rightarrow> series_sum dt xs)"

section \<open>Composition by store\<close>

text \<open>
  \<open>df_period_1.groupby('store')['sales'].sum().reset_index()\<close>: one row per store that
  occurs, holding the sum of the sales of the group in the arithmetic of the column.
\<close>

definition store_sales :: "dtype \<Rightarrow> dataframe \<Rightarrow> (string \<times> real option) list" where
  "store_sales dt df = groupby_agg store (\<lambda>g. group_sum dt (map sales g)) df"

section \<open>The script as a whole\<close>

text \<open>
  One run of the script on the loaded frame, the dtype of its sales column and the
  sidebar's values. The run stops with a warning when the main-period subset is empty;
  otherwise it renders the three tabs.
\<close>

record view =
  v_kpis :: kpis
  v_trend :: trend
  v_composition :: "(string \<times> real option) list"
  v_heatmaps :: "(heatmap_fig option \<times> message list) list"
  v_stats :: "(bar_fig option \<times> message list) list"
  v_explorer :: "display_row list"

datatype outcome = Stopped message | Rendered view

definition render :: "dtype \<Rightarrow> bool \<Rightarrow> dataframe \<Rightarrow> dataframe \<Rightarrow> view" where
  "render dt cmp df1 df2 =
     \<lparr> v_kpis = kpi_cards cmp df1 df2,
       v_trend = monthly_trend cmp df1 df2,
       v_composition = store_sales dt df1,
       v_heatmaps =
         (if cmp \<and> df2 \<noteq> []
          then [create_heatmap df1 ''Main Period'', create_heatmap df2 ''Comparison Period'']
          else [create_heatmap df1 ''Performance in Selected Period'']),
       v_stats =
         (if cmp \<and> df2 \<noteq> []
          then [create_stats_barchart df1 ''Main Period'',
                create_stats_barchart df2 ''Comparison Period'']
          else [create_stats_barchart df1 ''Performance in Selected Period'']),
       v_explorer = data_explorer df1 \<rparr>"

definition dashboard :: "dtype \<Rightarrow> dataframe \<Rightarrow> sidebar \<Rightarrow> outcome" where
  "dashboard dt df_original ui =
     (let df1 = df_period_1 df_original ui; df2 = df_period_2 df_original ui
      in if df1 = []
         then Stopped (Warning ''No data available for the selected filters in the main period.'')
         else Rendered (render dt (compare_mode ui) df1 df2))"

section \<open>Frames that the loader produces\<close>

text \<open>
  A row is well formed when its date is one a timestamp can hold and its derived columns
  are the ones the loader computes from that date. Every row of a loaded sheet is, and so
  is every row of a subset of it.
\<close>

definition well_formed :: "row \<Rightarrow> bool" where
  "well_formed r \<longleftrightarrow>
     valid_date (date r) \<and>
     r = derive \<lparr> raw_date = date r, raw_store = store r, raw_sales = sales r \<rparr>"

text \<open>The first day of the month of a date: the month as a period.\<close>

definition month_start :: "date \<Rightarrow> date" where
  "month_start d = (d_year d, d_month d, 1)"

section \<open>The specification's wording of the typical-performance aggregator\<close>

text \<open>
  The aggregator as the specification words it: drop the rows whose sales are 0, then take
  the mean and the median of the sales of each store. It is compared below with
  \<open>stats_table\<close>, the aggregator of the script.
\<close>

definition typical_performance_spec ::
  "dataframe \<Rightarrow> (string \<times> real option \<times> real option) list" where
  "typical_performance_spec df =
     groupby_agg store (\<lambda>g. (mean_sales g, median_sales g)) (filter (\<lambda>r. sales r \<noteq> 0) df)"

section \<open>Sample data\<close>

text \<open>The three rows of the specification's end-to-end scenario.\<close>

definition scenario_raw :: "raw_row list" where
  "scenario_raw =
     [\<lparr> raw_date = (2024, 1, 1), raw_store = ''StoreA'', raw_sales = 100 \<rparr>,
      \<lparr> raw_date = (2024, 1, 8), raw_store = ''StoreA'', raw_sales = 0 \<rparr>,
      \<lparr> raw_date = (2024, 1, 1), raw_store = ''StoreB'', raw_sales = 50 \<rparr>]"

definition scenario_df :: dataframe where
  "scenario_df = load_data scenario_raw"

definition scenario_ui :: sidebar where
  "scenario_ui =
     \<lparr> compare_mode = False, period1 = ((2024, 1, 1), (2024, 1, 8)),
       period2 = ((2023, 1, 1), (2023, 1, 8)), selected_stores = [''StoreA'', ''StoreB''] \<rparr>"

text \<open>A frame row with the given date, store and sales, as the loader builds it.\<close>

definition mk_row :: "date \<Rightarrow> string \<Rightarrow> real \<Rightarrow> row" where
  "mk_row d s x = derive \<lparr> raw_date = d, raw_store = s, raw_sales = x \<rparr>"

text \<open>A sidebar state with compare mode on, both periods inside January 2024.\<close>

definition compare_ui :: sidebar where
  "compare_ui =
     \<lparr> compare_mode = True, period1 = ((2024, 1, 1), (2024, 1, 7)),
       period2 = ((2024, 1, 8), (2024, 1, 31)), selected_stores = [''StoreA''] \<rparr>"

text \<open>Three days of store A, one of them without sales, and a store B that never sold.\<close>

definition typical_df :: dataframe where
  "typical_df =
     [mk_row (2024, 1, 1) ''A'' 10, mk_row (2024, 1, 2) ''A'' 0, mk_row (2024, 1, 3) ''A'' 20,
      mk_row (2024, 1, 1) ''B'' 0]"

text \<open>A day with sales and a day whose refunds exceed its sales.\<close>

definition refund_df :: dataframe where
  "refund_df = [mk_row (2024, 1, 1) ''A'' 10, mk_row (2024, 1, 2) ''A'' (- 4)]"

text \<open>Two stores in two weeks of January 2024, the rows out of date order.\<close>

definition week_df :: dataframe where
  "week_df =
     [mk_row (2024, 1, 7) ''B'' 30, mk_row (2024, 1, 3) ''A'' 10, mk_row (2024, 1, 1) ''B'' 50,
      mk_row (2024, 1, 10) ''A'' 20]"

text \<open>
  A main period whose rows come in the month order March, January, February, January, and
  a comparison period one year earlier in the order March, January, February.
\<close>

definition months_df :: dataframe where
  "months_df =
     [mk_row (2024, 3, 5) ''A'' 30, mk_row (2024, 1, 9) ''A'' 10, mk_row (2024, 2, 6) ''B'' 20,
      mk_row (2024, 1, 20) ''B'' 5]"

definition months_df_2 :: dataframe where
  "months_df_2 =
     [mk_row (2023, 3, 5) ''A'' 3, mk_row (2023, 1, 9) ''A'' 1, mk_row (2023, 2, 6) ''B'' 2]"

text \<open>Rows of January in two different years and of the December between them.\<close>

definition two_years_df :: dataframe where
  "two_years_df =
     [mk_row (2024, 1, 9) ''A'' 10, mk_row (2023, 1, 9) ''A'' 1, mk_row (2023, 12, 5) ''B'' 7]"

text \<open>
  A sheet with the last day of January and the first day of February 2024, and a sidebar
  state whose main period holds both.
\<close>

definition explorer_raw :: "raw_row list" where
  "explorer_raw =
     [\<lparr> raw_date = (2024, 1, 31), raw_store = ''StoreA'', raw_sales = 100 \<rparr>,
      \<lparr> raw_date = (2024, 2, 1), raw_store = ''StoreA'', raw_sales = 1234.5 \<rparr>]"

definition explorer_ui :: sidebar where
  "explorer_ui =
     \<lparr> compare_mode = False, period1 = ((2024, 1, 31), (2024, 2, 1)),
       period2 = ((2023, 1, 31), (2023, 2, 1)), selected_stores = [''StoreA''] \<rparr>"

text \<open>
  A float column with the cells 0.1, 0.2, 0.3 and 1.1, each the double nearest to the
  decimal that the sheet holds.
\<close>

definition cents_df :: dataframe where
  "cents_df =
     [mk_row (2024, 1, 1) ''A'' (f64_round (1 / 10)), mk_row (2024, 1, 1) ''B'' (f64_round (1 / 5)),
      mk_row (2024, 1, 2) ''A'' (f64_round (3 / 10)), mk_row (2024, 1, 3) ''A'' (f64_round (11 / 10))]"

section \<open>Properties\<close>

subsection \<open>The sample frame\<close>

lemma scenario_rows:
  "scenario_df =
     [\<lparr> date = (2024, 1, 1), store = ''StoreA'', sales = 100, year = 2024, month_num = 1,
         day_of_week = ''Monday'', month_name = ''Jan'', month_year = ''2024-01'' \<rparr>,
      \<lparr> date = (2024, 1, 8), store = ''StoreA'', sales = 0, year = 2024, month_num = 1,
         day_of_week = ''Monday'', month_name = ''Jan'', month_year = ''2024-01'' \<rparr>,
      \<lparr> date = (2024, 1, 1), store = ''StoreB'', sales = 50, year = 2024, month_num = 1,
         day_of_week = ''Monday'', month_name = ''Jan'', month_year = ''2024-01'' \<rparr>]"
  by (simp add: scenario_df_def scenario_raw_def load_data_def derive_def day_name_def ymd2ord_def
      days_before_year_def days_before_month_def upt_rec d_year_def d_month_def d_day_def
      ordered_days_def days_in_month_def is_leap_def strftime_b_def month_abbrs_def
      period_str_def pad4_def pad2_def digit_def)

subsection \<open>Filter layer\<close>

text \<open>
  C1. For every frame, every inclusive date range and every selection of stores, each row
  of the main-period subset has its date within the range and its store among the
  selected ones, and the subset is empty exactly when no row of the frame satisfies both
  conditions. With compare mode on, the same holds of the comparison subset and its
  range.
\<close>

theorem C1_filter_layer:
  "(\<forall>r \<in> set (df_period_1 df ui).
      fst (period1 ui) \<le> date r \<and> date r \<le> snd (period1 ui) \<and>
      store r \<in> set (selected_stores ui)) \<and>
   (df_period_1 df ui = [] \<longleftrightarrow>
      \<not> (\<exists>r \<in> set df. fst (period1 ui) \<le> date r \<and> date r \<le> snd (period1 ui) \<and>
            store r \<in> set (selected_stores ui))) \<and>
   (compare_mode ui \<longrightarrow>
      (\<forall>r \<in> set (df_period_2 df ui).
         fst (period2 ui) \<le> date r \<and> date r \<le> snd (period2 ui) \<and>
         store r \<in> set (selected_stores ui)) \<and>
      (df_period_2 df ui = [] \<longleftrightarrow>
         \<not> (\<exists>r \<in> set df. fst (period2 ui) \<le> date r \<and> date r \<le> snd (period2 ui) \<and>
               store r \<in> set (selected_stores ui))))"
  by (auto simp: df_period_1_def df_period_2_def filter_stores_def filter_period_def between_def
      Let_def filter_empty_conv)

theorem C1_filter_layer_witness:
  "compare_mode compare_ui \<and>
   (\<exists>r \<in> set scenario_df.
      fst (period1 compare_ui) \<le> date r \<and> date r \<le> snd (period1 compare_ui) \<and>
      store r \<in> set (selected_stores compare_ui)) \<and>
   df_period_1 scenario_df compare_ui \<noteq> [] \<and>
   (\<exists>r \<in> set scenario_df.
      fst (period2 compare_ui) \<le> date r \<and> date r \<le> snd (period2 compare_ui) \<and>
      store r \<in> set (selected_stores compare_ui)) \<and>
   df_period_2 scenario_df compare_ui \<noteq> []"
  using C1_filter_layer [of scenario_df compare_ui]
  by (simp add: scenario_rows compare_ui_def)

subsection \<open>Group-by\<close>

lemma set_group_keys: "set (group_keys key df) = key ` set df"
  by (simp add: group_keys_def)

lemma distinct_group_keys: "distinct (group_keys key df)"
  by (simp add: group_keys_def)

lemma sorted_group_keys: "sorted (group_keys key df)"
  by (simp add: group_keys_def)

lemma group_keys_cong_set: "set df = set df' \<Longrightarrow> group_keys key df = group_keys key df'"
proof -
  assume "set df = set df'"
  then have "set (map key df) = set (map key df')" by simp
  then have "sorted_list_of_set (set (map key df)) = sorted_list_of_set (set (map key df'))"
    by simp
  then show ?thesis
    unfolding group_keys_def sorted_list_of_set_sort_remdups .
qed

lemma map_fst_groupby_agg: "map fst (groupby_agg key agg df) = group_keys key df"
  by (simp add: groupby_agg_def comp_def)

lemma sum_sales_mset: "mset df = mset df' \<Longrightarrow> sum_sales (filter P df) = sum_sales (filter P df')"
proof -
  assume "mset df = mset df'"
  then have "mset (map sales (filter P df)) = mset (map sales (filter P df'))"
    by (metis mset_filter mset_map)
  then show ?thesis
    unfolding sum_sales_def by (metis sum_mset_sum_list)
qed

lemma sum_groups:
  fixes f :: "'r \<Rightarrow> 'v::comm_monoid_add"
  assumes "finite K" "key ` set df \<subseteq> K"
  shows "(\<Sum>k\<in>K. sum_list (map f (filter (\<lambda>r. key r = k) df))) = sum_list (map f df)"
  using assms(2)
proof (induction df)
  case Nil
  then show ?case by simp
next
  case (Cons r rs)
  then have in_K: "key r \<in> K" and rest: "key ` set rs \<subseteq> K" by simp_all
  have "(\<Sum>k\<in>K. sum_list (map f (filter (\<lambda>x. key x = k) (r # rs)))) =
        (\<Sum>k\<in>K. (if k = key r then f r else 0) + sum_list (map f (filter (\<lambda>x. key x = k) rs)))"
    by (rule sum.cong) auto
  also have "\<dots> = (\<Sum>k\<in>K. if k = key r then f r else 0) +
        (\<Sum>k\<in>K. sum_list (map f (filter (\<lambda>x. key x = k) rs)))"
    by (rule sum.distrib)
  also have "(\<Sum>k\<in>K. if k = key r then f r else 0) = f r"
    using assms(1) in_K by simp
  also have "(\<Sum>k\<in>K. sum_list (map f (filter (\<lambda>x. key x = k) rs))) = sum_list (map f rs)"
    using Cons.IH rest by simp
  finally show ?case by simp
qed

lemma sum_groupby_sum: "sum_list (map snd (groupby_agg key sum_sales df)) = sum_sales df"
proof -
  have "sum_list (map snd (groupby_agg key sum_sales df)) =
        sum_list (map (\<lambda>k. sum_list (map sales (filter (\<lambda>r. key r = k) df))) (group_keys key df))"
    by (simp add: groupby_agg_def comp_def sum_sales_def)
  also have "\<dots> = (\<Sum>k\<in>set (group_keys key df). sum_list (map sales (filter (\<lambda>r. key r = k) df)))"
    by (rule sum_list_distinct_conv_sum_set) (rule distinct_group_keys)
  also have "\<dots> = sum_list (map sales df)"
    by (rule sum_groups) (simp_all add: set_group_keys)
  finally show ?thesis by (simp add: sum_sales_def)
qed

subsection \<open>KPI deltas\<close>

text \<open>
  C2, as amended. For every pair of period values, the delta is
  \<open>(value1 - value2) / value2 * 100\<close> when the comparison value is strictly positive, and
  positive infinity when it is exactly zero; in particular the delta of 150 against 100
  is 50, that of 100 against 150 is \<open>-33.33...\<close> (minus a hundred thirds), and that of 100
  against 0 is positive infinity.
\<close>

theorem C2_delta_amended:
  "(0 < value2 \<longrightarrow> delta value1 value2 = Finite ((value1 - value2) / value2 * 100)) \<and>
   (value2 = 0 \<longrightarrow> delta value1 value2 = PosInf) \<and>
   delta 150 100 = Finite 50 \<and>
   delta 100 150 = Finite (- (100 / 3)) \<and>
   delta 100 0 = PosInf"
  by (simp add: delta_def)

theorem C2_delta_amended_witness:
  "(0 :: real) < 100 \<and> delta 150 100 = Finite ((150 - 100) / 100 * 100) \<and> delta 7 0 = PosInf"
  using C2_delta_amended [of 100 150] C2_delta_amended [of 0 7]
  by simp

text \<open>
  C2 as stated fails at a negative comparison value: against \<open>-50\<close>, which is not zero, the
  delta of 100 is positive infinity and not the value \<open>-300\<close> of the formula. A comparison
  subset with the single sale \<open>-50\<close> brings this total to the KPI card.
\<close>

theorem C2_delta_counterexample:
  "(- 50 :: real) \<noteq> 0 \<and>
   delta 100 (- 50) \<noteq> Finite ((100 - (- 50)) / (- 50) * 100) \<and>
   delta 100 (- 50) = PosInf \<and>
   kpi_cards True [mk_row (2024, 1, 1) ''A'' 100] [mk_row (2023, 1, 1) ''A'' (- 50)] =
     Kpi_comparison 100 (- 50) PosInf (Some 100) (Some (- 50)) PosInf"
  by (simp add: delta_def delta_avg_def kpi_cards_def total_sales_def avg_daily_sales_def
      sum_sales_def groupby_agg_def group_keys_def mean_def mk_row_def derive_def)

text \<open>
  C9. The guard of the delta tests \<open>value2 > 0\<close>: for every comparison value that is zero or
  negative the delta is positive infinity, and so differs from the value of the formula;
  the delta of the daily averages behaves the same.
\<close>

theorem C9_delta_nonpositive:
  "value2 \<le> 0 \<Longrightarrow>
     delta value1 value2 = PosInf \<and>
     delta value1 value2 \<noteq> Finite ((value1 - value2) / value2 * 100) \<and>
     delta_avg (Some value1) (Some value2) = PosInf"
  by (simp add: delta_def delta_avg_def)

theorem C9_delta_nonpositive_witness:
  "(- 50 :: real) \<le> 0 \<and> delta 100 (- 50) = PosInf \<and> delta_avg (Some 100) (Some (- 50)) = PosInf"
  using C9_delta_nonpositive [of "- 50" 100] by simp

subsection \<open>Empty input of the chart builders\<close>

text \<open>
  C8. On an empty frame the heatmap builder and the mean/median bar chart builder both
  return no chart; each returns normally, having shown one informational message.
\<close>

theorem C8_empty_no_chart:
  "fst (create_heatmap [] title) = None \<and>
   snd (create_heatmap [] title) = [Info (''No data available to generate heatmap: '' @ title)] \<and>
   fst (create_stats_barchart [] title) = None \<and>
   snd (create_stats_barchart [] title) =
     [Info (''No data available to generate stats chart: '' @ title)]"
  by (simp add: create_heatmap_def create_stats_barchart_def)

subsection \<open>Typical performance per store\<close>

lemma map_of_groupby_agg:
  "map_of (groupby_agg key agg df) k =
     (if k \<in> key ` set df then Some (agg (filter (\<lambda>r. key r = k) df)) else None)"
  by (simp add: groupby_agg_def map_of_map_restrict restrict_map_def set_group_keys)

lemma operating_days_nonneg:
  assumes "\<forall>r \<in> set df. 0 \<le> sales r"
  shows "df_operating_days df = filter (\<lambda>r. sales r \<noteq> 0) df"
  unfolding df_operating_days_def
  by (rule filter_cong) (use assms in auto)

lemma stats_table_lookup:
  "map_of (stats_table df) s =
     (if \<exists>r \<in> set df. store r = s \<and> 0 < sales r
      then Some (mean (map sales (filter (\<lambda>r. store r = s \<and> 0 < sales r) df)),
                 median (map sales (filter (\<lambda>r. store r = s \<and> 0 < sales r) df)))
      else None)"
proof -
  have "filter (\<lambda>r. store r = s) (df_operating_days df) = filter (\<lambda>r. store r = s \<and> 0 < sales r) df"
    by (simp add: df_operating_days_def conj_commute)
  moreover have "s \<in> store ` set (df_operating_days df) \<longleftrightarrow> (\<exists>r \<in> set df. store r = s \<and> 0 < sales r)"
    by (auto simp: df_operating_days_def)
  ultimately show ?thesis
    by (simp add: stats_table_def map_of_groupby_agg mean_sales_def median_sales_def)
qed

lemma stats_table_stores:
  "set (map fst (stats_table df)) = {s. \<exists>r \<in> set df. store r = s \<and> 0 < sales r}"
  by (auto simp: stats_table_def map_fst_groupby_agg set_group_keys df_operating_days_def)

lemma median_not_None: "xs \<noteq> [] \<Longrightarrow> median xs \<noteq> None"
proof -
  assume "xs \<noteq> []"
  then have "length (sort xs) \<noteq> 0" by simp
  then show ?thesis
    unfolding median_def Let_def by (simp only: if_False option.distinct split: if_split) simp
qed

lemma stats_table_defined:
  assumes "(s, m, md) \<in> set (stats_table df)"
  shows "m \<noteq> None \<and> md \<noteq> None"
proof -
  from assms obtain k where k: "k \<in> set (group_keys store (df_operating_days df))"
    and m: "m = mean_sales (filter (\<lambda>r. store r = k) (df_operating_days df))"
    and md: "md = median_sales (filter (\<lambda>r. store r = k) (df_operating_days df))"
    by (auto simp: stats_table_def groupby_agg_def)
  from k have "filter (\<lambda>r. store r = k) (df_operating_days df) \<noteq> []"
    by (auto simp: set_group_keys filter_empty_conv)
  then show ?thesis
    using m md by (simp add: mean_sales_def median_sales_def mean_def median_not_None)
qed

text \<open>
  C3, as amended. For every filtered subset, the typical-performance aggregator first
  removes every row whose sales value is 0 or negative (it keeps exactly the rows with
  sales above 0) and then computes the mean and the median of sales grouped by store; a
  store whose rows are all removed is absent from the result rather than reported as
  zero, and every store in the result has a mean and a median. On a subset without
  negative sales this is the aggregator as the specification words it. For the rows
  (A, 10), (A, 0), (A, 20) the result is mean 15 and median 15 for A.
\<close>

theorem C3_typical_performance_amended:
  "(\<forall>r \<in> set df. r \<in> set (df_operating_days df) \<longleftrightarrow> 0 < sales r) \<and>
   map_of (stats_table df) s =
     (if \<exists>r \<in> set df. store r = s \<and> 0 < sales r
      then Some (mean (map sales (filter (\<lambda>r. store r = s \<and> 0 < sales r) df)),
                 median (map sales (filter (\<lambda>r. store r = s \<and> 0 < sales r) df)))
      else None) \<and>
   ((\<forall>r \<in> set df. store r = s \<longrightarrow> sales r \<le> 0) \<longrightarrow> s \<notin> set (map fst (stats_table df))) \<and>
   (\<forall>e \<in> set (stats_table df). fst (snd e) \<noteq> None \<and> snd (snd e) \<noteq> None) \<and>
   ((\<forall>r \<in> set df. 0 \<le> sales r) \<longrightarrow> stats_table df = typical_performance_spec df) \<and>
   stats_table [mk_row d1 ''A'' 10, mk_row d2 ''A'' 0, mk_row d3 ''A'' 20] =
     [(''A'', Some 15, Some 15)]"
proof -
  have 1: "\<forall>r \<in> set df. r \<in> set (df_operating_days df) \<longleftrightarrow> 0 < sales r"
    by (simp add: df_operating_days_def)
  have 3: "(\<forall>r \<in> set df. 0 \<le> sales r) \<longrightarrow> stats_table df = typical_performance_spec df"
    by (simp add: stats_table_def typical_performance_spec_def operating_days_nonneg)
  have 4: "(\<forall>r \<in> set df. store r = s \<longrightarrow> sales r \<le> 0) \<longrightarrow> s \<notin> set (map fst (stats_table df))"
    unfolding stats_table_stores by auto
  have 5: "\<forall>e \<in> set (stats_table df). fst (snd e) \<noteq> None \<and> snd (snd e) \<noteq> None"
    using stats_table_defined [of _ _ _ df] by (metis prod.collapse)
  have 6: "stats_table [mk_row d1 ''A'' 10, mk_row d2 ''A'' 0, mk_row d3 ''A'' 20] =
     [(''A'', Some 15, Some 15)]"
    by (simp add: stats_table_def df_operating_days_def groupby_agg_def group_keys_def
        mean_sales_def median_sales_def mean_def median_def mk_row_def derive_def)
  show ?thesis
    using 1 3 4 5 6 stats_table_lookup [of df s] by simp
qed

theorem C3_typical_performance_amended_witness:
  "list_all (\<lambda>r. 0 \<le> sales r) typical_df \<and>
   list_all (\<lambda>r. store r = ''B'' \<longrightarrow> sales r \<le> 0) typical_df \<and>
   ''B'' \<in> store ` set typical_df \<and>
   ''B'' \<notin> set (map fst (stats_table typical_df)) \<and>
   map_of (stats_table typical_df) ''B'' = None \<and>
   stats_table typical_df = typical_performance_spec typical_df \<and>
   stats_table typical_df \<noteq> []"
proof -
  have rows: "typical_df =
      [mk_row (2024, 1, 1) ''A'' 10, mk_row (2024, 1, 2) ''A'' 0, mk_row (2024, 1, 3) ''A'' 20,
       mk_row (2024, 1, 1) ''B'' 0]"
    by (simp add: typical_df_def)
  have h1: "\<forall>r \<in> set typical_df. 0 \<le> sales r"
    by (simp add: rows mk_row_def derive_def)
  have h2: "\<forall>r \<in> set typical_df. store r = ''B'' \<longrightarrow> sales r \<le> 0"
    by (simp add: rows mk_row_def derive_def)
  have h3: "\<not> (\<exists>r \<in> set typical_df. store r = ''B'' \<and> 0 < sales r)"
    by (simp add: rows mk_row_def derive_def)
  have h4: "''B'' \<in> store ` set typical_df"
    by (simp add: rows mk_row_def derive_def)
  have h5: "stats_table typical_df \<noteq> []"
    by (simp add: rows stats_table_def df_operating_days_def groupby_agg_def group_keys_def
        mk_row_def derive_def)
  note th = C3_typical_performance_amended [of typical_df "''B''"]
  from th h1 have a: "stats_table typical_df = typical_performance_spec typical_df"
    by blast
  from th h2 have b: "''B'' \<notin> set (map fst (stats_table typical_df))"
    by blast
  from th h3 have c: "map_of (stats_table typical_df) ''B'' = None"
    by simp
  from h1 h2 h4 h5 a b c show ?thesis
    by (simp add: list_all_iff)
qed

text \<open>
  C3 as stated fails on a subset with a negative sales value: of the rows (A, 10) and
  (A, -4) none has sales 0, so the mean and the median of A would both be 3; the script
  keeps only the first row and gives 10 for both.
\<close>

theorem C3_typical_performance_counterexample:
  "stats_table refund_df = [(''A'', Some 10, Some 10)] \<and>
   typical_performance_spec refund_df = [(''A'', Some 3, Some 3)] \<and>
   stats_table refund_df \<noteq> typical_performance_spec refund_df"
  by (simp add: refund_df_def stats_table_def typical_performance_spec_def df_operating_days_def
      groupby_agg_def group_keys_def mean_sales_def median_sales_def mean_def median_def
      mk_row_def derive_def)

subsection \<open>Day-of-week heatmap\<close>

lemma heatmap_columns: "pv_columns (heatmap_data df) = ordered_days"
  by (simp add: heatmap_data_def reindex_columns_def)

lemma heatmap_index: "pv_index (heatmap_data df) = group_keys store df"
  by (simp add: heatmap_data_def reindex_columns_def pivot_table_mean_def)

lemma heatmap_cell:
  "pv_cell (heatmap_data df) s d =
     (if d \<in> set ordered_days \<and> (\<exists>r \<in> set df. store r = s \<and> day_of_week r = d)
      then Some (sum_sales (filter (\<lambda>r. store r = s \<and> day_of_week r = d) df) /
                 real (length (filter (\<lambda>r. store r = s \<and> day_of_week r = d) df)))
      else None)"
proof (cases "\<exists>r \<in> set df. store r = s \<and> day_of_week r = d")
  case True
  then have ne: "filter (\<lambda>r. store r = s \<and> day_of_week r = d) df \<noteq> []"
    by (auto simp: filter_empty_conv)
  from True have "d \<in> set (group_keys day_of_week df)"
    by (auto simp: set_group_keys)
  with True ne show ?thesis
    by (simp add: heatmap_data_def reindex_columns_def pivot_table_mean_def mean_sales_def
        mean_def sum_sales_def)
next
  case False
  then have "filter (\<lambda>r. store r = s \<and> day_of_week r = d) df = []"
    by (auto simp: filter_empty_conv)
  with False show ?thesis
    by (simp add: heatmap_data_def reindex_columns_def pivot_table_mean_def mean_sales_def
        mean_def)
qed

lemma mean_sales_mset:
  "mset df = mset df' \<Longrightarrow> mean_sales (filter P df) = mean_sales (filter P df')"
proof -
  assume eq: "mset df = mset df'"
  then have m: "mset (map sales (filter P df)) = mset (map sales (filter P df'))"
    by (metis mset_filter mset_map)
  then have "sum_list (map sales (filter P df)) = sum_list (map sales (filter P df'))"
    by (metis sum_mset_sum_list)
  moreover from m have "length (map sales (filter P df)) = length (map sales (filter P df'))"
    by (metis size_mset)
  ultimately show ?thesis
    unfolding mean_sales_def mean_def
    by (metis length_0_conv)
qed

lemma heatmap_data_mset:
  assumes "mset df = mset df'"
  shows "heatmap_data df = heatmap_data df'"
proof -
  from assms have sets: "set df = set df'" by (rule mset_eq_setD)
  have k1: "group_keys store df = group_keys store df'"
    using sets by (rule group_keys_cong_set)
  have k2: "group_keys day_of_week df = group_keys day_of_week df'"
    using sets by (rule group_keys_cong_set)
  have cells: "(\<lambda>s d. mean_sales (filter (\<lambda>r. store r = s \<and> day_of_week r = d) df)) =
      (\<lambda>s d. mean_sales (filter (\<lambda>r. store r = s \<and> day_of_week r = d) df'))"
    by (intro ext) (rule mean_sales_mset [OF assms])
  show ?thesis
    unfolding heatmap_data_def pivot_table_mean_def k1 k2 cells ..
qed

lemma week_df_rows:
  "week_df =
     [\<lparr> date = (2024, 1, 7), store = ''B'', sales = 30, year = 2024, month_num = 1,
         day_of_week = ''Sunday'', month_name = ''Jan'', month_year = ''2024-01'' \<rparr>,
      \<lparr> date = (2024, 1, 3), store = ''A'', sales = 10, year = 2024, month_num = 1,
         day_of_week = ''Wednesday'', month_name = ''Jan'', month_year = ''2024-01'' \<rparr>,
      \<lparr> date = (2024, 1, 1), store = ''B'', sales = 50, year = 2024, month_num = 1,
         day_of_week = ''Monday'', month_name = ''Jan'', month_year = ''2024-01'' \<rparr>,
      \<lparr> date = (2024, 1, 10), store = ''A'', sales = 20, year = 2024, month_num = 1,
         day_of_week = ''Wednesday'', month_name = ''Jan'', month_year = ''2024-01'' \<rparr>]"
  by (simp add: week_df_def mk_row_def derive_def day_name_def ymd2ord_def
      days_before_year_def days_before_month_def upt_rec d_year_def d_month_def d_day_def
      ordered_days_def days_in_month_def is_leap_def strftime_b_def month_abbrs_def
      period_str_def pad4_def pad2_def digit_def)

lemma week_matrix:
  "pv_matrix (heatmap_data week_df) =
     [[None, None, Some 15, None, None, None, None],
      [Some 50, None, None, None, None, None, Some 30]]"
  by (simp add: pv_matrix_def heatmap_data_def reindex_columns_def pivot_table_mean_def
      group_keys_def mean_sales_def mean_def ordered_days_def week_df_rows)

text \<open>
  C5. For every non-empty subset the heatmap builder returns a chart over the pivot of
  mean sales by store and day of week. The columns of the pivot are exactly Monday,
  Tuesday, Wednesday, Thursday, Friday, Saturday, Sunday, in this order, and its rows are
  the stores that occur. The cell of a store and a day holds the mean of the sales of the
  rows with that store and that day, and is undefined, not zero, when the subset has no
  such row. Reordering the rows of the subset changes nothing of the pivot.
\<close>

theorem C5_heatmap:
  "df \<noteq> [] \<Longrightarrow>
     (\<exists>fig. create_heatmap df title = (Some fig, []) \<and>
        hm_z fig = heatmap_data df \<and> hm_x fig = ordered_days \<and>
        hm_y fig = pv_index (heatmap_data df)) \<and>
     pv_columns (heatmap_data df) =
       [''Monday'', ''Tuesday'', ''Wednesday'', ''Thursday'', ''Friday'', ''Saturday'', ''Sunday''] \<and>
     pv_index (heatmap_data df) = sort (remdups (map store df)) \<and>
     pv_cell (heatmap_data df) s d =
       (if d \<in> set ordered_days \<and> (\<exists>r \<in> set df. store r = s \<and> day_of_week r = d)
        then Some (sum_sales (filter (\<lambda>r. store r = s \<and> day_of_week r = d) df) /
                   real (length (filter (\<lambda>r. store r = s \<and> day_of_week r = d) df)))
        else None) \<and>
     (mset df' = mset df \<longrightarrow> heatmap_data df' = heatmap_data df)"
proof -
  assume ne: "df \<noteq> []"
  have 1: "\<exists>fig. create_heatmap df title = (Some fig, []) \<and>
        hm_z fig = heatmap_data df \<and> hm_x fig = ordered_days \<and>
        hm_y fig = pv_index (heatmap_data df)"
    using ne by (simp add: create_heatmap_def Let_def)
  have 2: "pv_columns (heatmap_data df) =
       [''Monday'', ''Tuesday'', ''Wednesday'', ''Thursday'', ''Friday'', ''Saturday'', ''Sunday'']"
    by (simp add: heatmap_columns ordered_days_def)
  have 3: "pv_index (heatmap_data df) = sort (remdups (map store df))"
    by (simp add: heatmap_index group_keys_def)
  have 4: "mset df' = mset df \<longrightarrow> heatmap_data df' = heatmap_data df"
    using heatmap_data_mset [of df' df] by blast
  from 1 2 3 4 heatmap_cell [of df s d] show ?thesis
    by blast
qed

theorem C5_heatmap_witness:
  "week_df \<noteq> [] \<and>
   fst (create_heatmap week_df ''Main Period'') \<noteq> None \<and>
   pv_index (heatmap_data week_df) = [''A'', ''B''] \<and>
   pv_cell (heatmap_data week_df) ''A'' ''Wednesday'' = Some 15 \<and>
   pv_cell (heatmap_data week_df) ''A'' ''Monday'' = None \<and>
   heatmap_data (rev week_df) = heatmap_data week_df"
proof -
  have ne: "week_df \<noteq> []" by (simp add: week_df_def)
  note a = C5_heatmap [OF ne, of "''Main Period''" "''A''" "''Wednesday''" "rev week_df"]
  note b = C5_heatmap [OF ne, of "''Main Period''" "''A''" "''Monday''" "rev week_df"]
  from a have 1: "fst (create_heatmap week_df ''Main Period'') \<noteq> None" by auto
  from a have 2: "pv_index (heatmap_data week_df) = [''A'', ''B'']"
    by (simp add: week_df_rows)
  from a have 3: "pv_cell (heatmap_data week_df) ''A'' ''Wednesday'' = Some 15"
    by (simp add: week_df_rows ordered_days_def sum_sales_def)
  from b have 4: "pv_cell (heatmap_data week_df) ''A'' ''Monday'' = None"
    by (simp add: week_df_rows ordered_days_def)
  from a have 5: "heatmap_data (rev week_df) = heatmap_data week_df" by simp
  from ne 1 2 3 4 5 show ?thesis by blast
qed

subsection \<open>Monthly trend of two periods\<close>

lemma groupby_sum_mset:
  assumes "mset df = mset df'"
  shows "groupby_agg key sum_sales df = groupby_agg key sum_sales df'"
proof -
  from assms have sets: "set df = set df'" by (rule mset_eq_setD)
  have k: "group_keys key df = group_keys key df'"
    using sets by (rule group_keys_cong_set)
  have "(\<lambda>k. (k, sum_sales (filter (\<lambda>r. key r = k) df))) =
        (\<lambda>k. (k, sum_sales (filter (\<lambda>r. key r = k) df')))"
    using sum_sales_mset [OF assms] by auto
  then show ?thesis
    unfolding groupby_agg_def k by simp
qed

lemma monthly_sales_mset:
  "mset df = mset df' \<Longrightarrow> monthly_sales df label = monthly_sales df' label"
  unfolding monthly_sales_def by (simp add: groupby_sum_mset [of df df'])

lemma monthly_sales_keys:
  "map (\<lambda>t. (tr_month_num t, tr_month_name t)) (monthly_sales df label) =
     sort (remdups (map (\<lambda>r. (month_num r, month_name r)) df))"
  by (simp add: monthly_sales_def groupby_agg_def group_keys_def comp_def case_prod_beta)

lemma monthly_sales_rows:
  assumes "t \<in> set (monthly_sales df label)"
  shows "tr_period t = label \<and>
         (\<exists>r \<in> set df. month_num r = tr_month_num t \<and> month_name r = tr_month_name t) \<and>
         tr_sales t =
           sum_list (map sales
             (filter (\<lambda>r. month_num r = tr_month_num t \<and> month_name r = tr_month_name t) df))"
proof -
  from assms obtain k where k: "k \<in> set (group_keys (\<lambda>r. (month_num r, month_name r)) df)"
    and t: "t = \<lparr> tr_month_num = fst k, tr_month_name = snd k,
                  tr_sales = sum_sales (filter (\<lambda>r. (month_num r, month_name r) = k) df),
                  tr_period = label \<rparr>"
    by (auto simp: monthly_sales_def groupby_agg_def)
  have "(\<lambda>r. (month_num r, month_name r) = k) = (\<lambda>r. month_num r = fst k \<and> month_name r = snd k)"
    by auto
  with k t show ?thesis
    by (auto simp: set_group_keys sum_sales_def)
qed

lemma months_df_rows:
  "months_df =
     [\<lparr> date = (2024, 3, 5), store = ''A'', sales = 30, year = 2024, month_num = 3,
         day_of_week = ''Tuesday'', month_name = ''Mar'', month_year = ''2024-03'' \<rparr>,
      \<lparr> date = (2024, 1, 9), store = ''A'', sales = 10, year = 2024, month_num = 1,
         day_of_week = ''Tuesday'', month_name = ''Jan'', month_year = ''2024-01'' \<rparr>,
      \<lparr> date = (2024, 2, 6), store = ''B'', sales = 20, year = 2024, month_num = 2,
         day_of_week = ''Tuesday'', month_name = ''Feb'', month_year = ''2024-02'' \<rparr>,
      \<lparr> date = (2024, 1, 20), store = ''B'', sales = 5, year = 2024, month_num = 1,
         day_of_week = ''Saturday'', month_name = ''Jan'', month_year = ''2024-01'' \<rparr>]"
  by (simp add: months_df_def mk_row_def derive_def day_name_def ymd2ord_def
      days_before_year_def days_before_month_def upt_rec d_year_def d_month_def d_day_def
      ordered_days_def days_in_month_def is_leap_def strftime_b_def month_abbrs_def
      period_str_def pad4_def pad2_def digit_def)

lemma months_df_2_rows:
  "months_df_2 =
     [\<lparr> date = (2023, 3, 5), store = ''A'', sales = 3, year = 2023, month_num = 3,
         day_of_week = ''Sunday'', month_name = ''Mar'', month_year = ''2023-03'' \<rparr>,
      \<lparr> date = (2023, 1, 9), store = ''A'', sales = 1, year = 2023, month_num = 1,
         day_of_week = ''Monday'', month_name = ''Jan'', month_year = ''2023-01'' \<rparr>,
      \<lparr> date = (2023, 2, 6), store = ''B'', sales = 2, year = 2023, month_num = 2,
         day_of_week = ''Monday'', month_name = ''Feb'', month_year = ''2023-02'' \<rparr>]"
  by (simp add: months_df_2_def mk_row_def derive_def day_name_def ymd2ord_def
      days_before_year_def days_before_month_def upt_rec d_year_def d_month_def d_day_def
      ordered_days_def days_in_month_def is_leap_def strftime_b_def month_abbrs_def
      period_str_def pad4_def pad2_def digit_def)

lemma months_monthly_sales:
  "monthly_sales months_df label =
     [\<lparr> tr_month_num = 1, tr_month_name = ''Jan'', tr_sales = 15, tr_period = label \<rparr>,
      \<lparr> tr_month_num = 2, tr_month_name = ''Feb'', tr_sales = 20, tr_period = label \<rparr>,
      \<lparr> tr_month_num = 3, tr_month_name = ''Mar'', tr_sales = 30, tr_period = label \<rparr>]"
  by (simp add: months_df_rows monthly_sales_def groupby_agg_def group_keys_def sum_sales_def
      less_eq_prod_def less_prod_def)

lemma months_2_monthly_sales:
  "monthly_sales months_df_2 label =
     [\<lparr> tr_month_num = 1, tr_month_name = ''Jan'', tr_sales = 1, tr_period = label \<rparr>,
      \<lparr> tr_month_num = 2, tr_month_name = ''Feb'', tr_sales = 2, tr_period = label \<rparr>,
      \<lparr> tr_month_num = 3, tr_month_name = ''Mar'', tr_sales = 3, tr_period = label \<rparr>]"
  by (simp add: months_df_2_rows monthly_sales_def groupby_agg_def group_keys_def sum_sales_def
      less_eq_prod_def less_prod_def)

lemma months_plot_df:
  "map (\<lambda>t. (tr_month_name t, tr_period t, tr_sales t)) (plot_df_compare months_df months_df_2) =
     [(''Jan'', ''Main'', 15), (''Jan'', ''Comparison'', 1),
      (''Feb'', ''Main'', 20), (''Feb'', ''Comparison'', 2),
      (''Mar'', ''Main'', 30), (''Mar'', ''Comparison'', 3)]"
  by (simp add: plot_df_compare_def months_monthly_sales months_2_monthly_sales)

text \<open>
  C6. With compare mode on and a non-empty comparison subset, the monthly trend is the
  frame \<open>plot_df\<close> of the comparison branch: each period contributes one row per
  (month number, month name) pair that occurs in it, holding the sum of the sales of the
  rows of that pair and the label of the period; the two series are concatenated and the result is
  ordered by month number. The frame does not depend on the order of the input rows; for
  rows that come in the month order March, January, February the months of the frame read
  January, February, March (each once per period), which is not the alphabetical order
  of the names, and the sample periods give the sums 15, 20, 30 and 1, 2, 3.
\<close>

theorem C6_monthly_comparison:
  "df2 \<noteq> [] \<Longrightarrow>
     monthly_trend True df1 df2 = Monthly_comparison (plot_df_compare df1 df2) \<and>
     sorted (map tr_month_num (plot_df_compare df1 df2)) \<and>
     mset (plot_df_compare df1 df2) =
       mset (monthly_sales df1 ''Main'') + mset (monthly_sales df2 ''Comparison'') \<and>
     map (\<lambda>t. (tr_month_num t, tr_month_name t)) (monthly_sales df1 ''Main'') =
       sort (remdups (map (\<lambda>r. (month_num r, month_name r)) df1)) \<and>
     map (\<lambda>t. (tr_month_num t, tr_month_name t)) (monthly_sales df2 ''Comparison'') =
       sort (remdups (map (\<lambda>r. (month_num r, month_name r)) df2)) \<and>
     (\<forall>t \<in> set (monthly_sales df1 ''Main'').
        tr_period t = ''Main'' \<and>
        tr_sales t =
          sum_list (map sales
            (filter (\<lambda>r. month_num r = tr_month_num t \<and> month_name r = tr_month_name t) df1))) \<and>
     (\<forall>t \<in> set (monthly_sales df2 ''Comparison'').
        tr_period t = ''Comparison'' \<and>
        tr_sales t =
          sum_list (map sales
            (filter (\<lambda>r. month_num r = tr_month_num t \<and> month_name r = tr_month_name t) df2))) \<and>
     (mset df1' = mset df1 \<and> mset df2' = mset df2 \<longrightarrow>
        plot_df_compare df1' df2' = plot_df_compare df1 df2) \<and>
     (mset df1' = mset months_df \<and> mset df2' = mset months_df_2 \<longrightarrow>
        map tr_month_name (plot_df_compare df1' df2') =
          [''Jan'', ''Jan'', ''Feb'', ''Feb'', ''Mar'', ''Mar'']) \<and>
     (mset df1' = mset months_df \<and> mset df2' = mset months_df_2 \<longrightarrow>
        map (\<lambda>t. (tr_month_name t, tr_period t, tr_sales t)) (plot_df_compare df1' df2') =
          [(''Jan'', ''Main'', 15), (''Jan'', ''Comparison'', 1),
           (''Feb'', ''Main'', 20), (''Feb'', ''Comparison'', 2),
           (''Mar'', ''Main'', 30), (''Mar'', ''Comparison'', 3)])"
proof -
  assume ne: "df2 \<noteq> []"
  have 1: "monthly_trend True df1 df2 = Monthly_comparison (plot_df_compare df1 df2)"
    using ne by (simp add: monthly_trend_def)
  have 2: "sorted (map tr_month_num (plot_df_compare df1 df2))"
    by (simp add: plot_df_compare_def)
  have 3: "mset (plot_df_compare df1 df2) =
       mset (monthly_sales df1 ''Main'') + mset (monthly_sales df2 ''Comparison'')"
    by (simp add: plot_df_compare_def)
  have 4: "\<forall>t \<in> set (monthly_sales df1 ''Main'').
        tr_period t = ''Main'' \<and>
        tr_sales t =
          sum_list (map sales
            (filter (\<lambda>r. month_num r = tr_month_num t \<and> month_name r = tr_month_name t) df1))"
    using monthly_sales_rows [of _ df1 "''Main''"] by blast
  have 5: "\<forall>t \<in> set (monthly_sales df2 ''Comparison'').
        tr_period t = ''Comparison'' \<and>
        tr_sales t =
          sum_list (map sales
            (filter (\<lambda>r. month_num r = tr_month_num t \<and> month_name r = tr_month_name t) df2))"
    using monthly_sales_rows [of _ df2 "''Comparison''"] by blast
  have 6: "mset df1' = mset df1 \<and> mset df2' = mset df2 \<longrightarrow>
        plot_df_compare df1' df2' = plot_df_compare df1 df2"
    using monthly_sales_mset [of df1' df1] monthly_sales_mset [of df2' df2]
    by (simp add: plot_df_compare_def)
  have 7: "mset df1' = mset months_df \<and> mset df2' = mset months_df_2 \<longrightarrow>
        map tr_month_name (plot_df_compare df1' df2') =
          [''Jan'', ''Jan'', ''Feb'', ''Feb'', ''Mar'', ''Mar'']"
  proof
    assume "mset df1' = mset months_df \<and> mset df2' = mset months_df_2"
    then have "plot_df_compare df1' df2' = plot_df_compare months_df months_df_2"
      using monthly_sales_mset [of df1' months_df] monthly_sales_mset [of df2' months_df_2]
      by (simp add: plot_df_compare_def)
    then show "map tr_month_name (plot_df_compare df1' df2') =
          [''Jan'', ''Jan'', ''Feb'', ''Feb'', ''Mar'', ''Mar'']"
      by (simp add: plot_df_compare_def months_monthly_sales months_2_monthly_sales)
  qed
  have 8: "mset df1' = mset months_df \<and> mset df2' = mset months_df_2 \<longrightarrow>
        map (\<lambda>t. (tr_month_name t, tr_period t, tr_sales t)) (plot_df_compare df1' df2') =
          [(''Jan'', ''Main'', 15), (''Jan'', ''Comparison'', 1),
           (''Feb'', ''Main'', 20), (''Feb'', ''Comparison'', 2),
           (''Mar'', ''Main'', 30), (''Mar'', ''Comparison'', 3)]"
  proof
    assume "mset df1' = mset months_df \<and> mset df2' = mset months_df_2"
    then have "plot_df_compare df1' df2' = plot_df_compare months_df months_df_2"
      using monthly_sales_mset [of df1' months_df] monthly_sales_mset [of df2' months_df_2]
      by (simp add: plot_df_compare_def)
    then show "map (\<lambda>t. (tr_month_name t, tr_period t, tr_sales t)) (plot_df_compare df1' df2') =
          [(''Jan'', ''Main'', 15), (''Jan'', ''Comparison'', 1),
           (''Feb'', ''Main'', 20), (''Feb'', ''Comparison'', 2),
           (''Mar'', ''Main'', 30), (''Mar'', ''Comparison'', 3)]"
      by (simp only: months_plot_df)
  qed
  from 1 2 3 4 5 6 7 8 monthly_sales_keys [of df1 "''Main''"]
    monthly_sales_keys [of df2 "''Comparison''"]
  show ?thesis by blast
qed

theorem C6_monthly_comparison_witness:
  "months_df_2 \<noteq> [] \<and>
   map month_name months_df = [''Mar'', ''Jan'', ''Feb'', ''Jan''] \<and>
   monthly_trend True months_df months_df_2 =
     Monthly_comparison (plot_df_compare months_df months_df_2) \<and>
   map tr_month_name (plot_df_compare months_df months_df_2) =
     [''Jan'', ''Jan'', ''Feb'', ''Feb'', ''Mar'', ''Mar''] \<and>
   map tr_month_name (plot_df_compare (rev months_df) (rev months_df_2)) =
     [''Jan'', ''Jan'', ''Feb'', ''Feb'', ''Mar'', ''Mar''] \<and>
   map (\<lambda>t. (tr_month_name t, tr_period t, tr_sales t))
     (plot_df_compare (rev months_df) (rev months_df_2)) =
     [(''Jan'', ''Main'', 15), (''Jan'', ''Comparison'', 1),
      (''Feb'', ''Main'', 20), (''Feb'', ''Comparison'', 2),
      (''Mar'', ''Main'', 30), (''Mar'', ''Comparison'', 3)] \<and>
   (\<exists>t \<in> set (monthly_sales months_df ''Main''). tr_month_name t = ''Jan'' \<and> tr_sales t = 15) \<and>
   sort [''Mar'', ''Jan'', ''Feb''] = [''Feb'', ''Jan'', ''Mar'']"
proof -
  have ne: "months_df_2 \<noteq> []" by (simp add: months_df_2_def)
  note a = C6_monthly_comparison [OF ne, of months_df months_df months_df_2]
  note b = C6_monthly_comparison [OF ne, of months_df "rev months_df" "rev months_df_2"]
  from a have 1: "monthly_trend True months_df months_df_2 =
     Monthly_comparison (plot_df_compare months_df months_df_2)" by blast
  from a have 2: "map tr_month_name (plot_df_compare months_df months_df_2) =
     [''Jan'', ''Jan'', ''Feb'', ''Feb'', ''Mar'', ''Mar'']" by blast
  have r: "mset (rev months_df) = mset months_df \<and> mset (rev months_df_2) = mset months_df_2"
    by simp
  from b r have 3: "map tr_month_name (plot_df_compare (rev months_df) (rev months_df_2)) =
     [''Jan'', ''Jan'', ''Feb'', ''Feb'', ''Mar'', ''Mar'']" by blast
  have 4: "map month_name months_df = [''Mar'', ''Jan'', ''Feb'', ''Jan'']"
    by (simp add: months_df_rows)
  have 5: "sort [''Mar'', ''Jan'', ''Feb''] = [''Feb'', ''Jan'', ''Mar'']"
    by simp
  from b r have 6: "map (\<lambda>t. (tr_month_name t, tr_period t, tr_sales t))
     (plot_df_compare (rev months_df) (rev months_df_2)) =
     [(''Jan'', ''Main'', 15), (''Jan'', ''Comparison'', 1),
      (''Feb'', ''Main'', 20), (''Feb'', ''Comparison'', 2),
      (''Mar'', ''Main'', 30), (''Mar'', ''Comparison'', 3)]" by blast
  have 7: "\<exists>t \<in> set (monthly_sales months_df ''Main''). tr_month_name t = ''Jan'' \<and> tr_sales t = 15"
    by (simp add: months_monthly_sales)
  from ne 1 2 3 4 5 6 7 show ?thesis by blast
qed

subsection \<open>Order of the date labels\<close>

lemma divmod_less_iff:
  fixes a b k :: nat
  shows "a < b \<longleftrightarrow> a div k < b div k \<or> a div k = b div k \<and> a mod k < b mod k"
proof (cases "a div k = b div k")
  case True
  define q where "q = b div k"
  have "(k * q + a mod k < k * q + b mod k) = (a mod k < b mod k)" by simp
  moreover have "k * q + a mod k = a" using mult_div_mod_eq [of k a] True by (simp add: q_def)
  moreover have "k * q + b mod k = b" by (simp add: q_def)
  ultimately have "a < b \<longleftrightarrow> a mod k < b mod k" by simp
  with True show ?thesis by simp
next
  case False
  show ?thesis
  proof (cases "a div k < b div k")
    case True
    then have "a < b" using div_le_mono [of b a k] by (meson not_le)
    with True show ?thesis by simp
  next
    case False
    with \<open>a div k \<noteq> b div k\<close> have "b div k < a div k" by simp
    then have "b < a" using div_le_mono [of a b k] by (meson not_le)
    with \<open>b div k < a div k\<close> show ?thesis by simp
  qed
qed

lemma divmod_eq_iff:
  fixes a b k :: nat
  shows "a = b \<longleftrightarrow> a div k = b div k \<and> a mod k = b mod k"
  by (metis mult_div_mod_eq)


lemma of_char_digit_aux: "k < 10 \<Longrightarrow> of_char (''0123456789'' ! k) = (48 + k :: nat)"
proof -
  assume "k < 10"
  then consider "k = 0" | "k = 1" | "k = 2" | "k = 3" | "k = 4"
    | "k = 5" | "k = 6" | "k = 7" | "k = 8" | "k = 9"
    by force
  then show ?thesis
    by cases simp_all
qed

lemma of_char_digit: "of_char (digit n) = (48 + n mod 10 :: nat)"
  by (simp add: digit_def of_char_digit_aux)

lemma digit_less_iff: "digit a < digit b \<longleftrightarrow> a mod 10 < b mod 10"
  by (simp add: less_char_def of_char_digit)

lemma digit_eq_iff: "digit a = digit b \<longleftrightarrow> a mod 10 = b mod 10"
proof
  assume "digit a = digit b"
  then have "(of_char (digit a) :: nat) = of_char (digit b)" by simp
  then show "a mod 10 = b mod 10" by (simp add: of_char_digit)
next
  assume "a mod 10 = b mod 10"
  then show "digit a = digit b" by (simp add: digit_def)
qed

lemma pad2_less_iff:
  assumes "a < 100" "b < 100"
  shows "pad2 a < pad2 b \<longleftrightarrow> a < b"
proof -
  have da: "a div 10 mod 10 = a div 10" and db: "b div 10 mod 10 = b div 10"
    using assms by simp_all
  have "pad2 a < pad2 b \<longleftrightarrow>
          (a div 10 < b div 10 \<or> a div 10 = b div 10 \<and> a mod 10 < b mod 10)"
    by (simp add: pad2_def digit_less_iff digit_eq_iff da db)
  then show ?thesis using divmod_less_iff [of a b 10] by simp
qed

lemma pad2_eq_iff:
  assumes "a < 100" "b < 100"
  shows "pad2 a = pad2 b \<longleftrightarrow> a = b"
proof -
  have da: "a div 10 mod 10 = a div 10" and db: "b div 10 mod 10 = b div 10"
    using assms by simp_all
  have "pad2 a = pad2 b \<longleftrightarrow> (a div 10 = b div 10 \<and> a mod 10 = b mod 10)"
    by (simp add: pad2_def digit_eq_iff da db)
  then show ?thesis using divmod_eq_iff [of a b 10] by simp
qed

lemma length_pad2: "length (pad2 n) = 2"
  by (simp add: pad2_def)

lemma append_less_same_length:
  fixes xs ys :: "'a::linorder list"
  assumes "length xs = length ys"
  shows "xs @ us < ys @ vs \<longleftrightarrow> xs < ys \<or> xs = ys \<and> us < vs"
  using assms by (induction xs ys rule: list_induct2) auto

lemma pad4_less_iff:
  assumes "a < 10000" "b < 10000"
  shows "pad4 a < pad4 b \<longleftrightarrow> a < b"
proof -
  have da: "a div 100 < 100" "a mod 100 < 100" and db: "b div 100 < 100" "b mod 100 < 100"
    using assms by simp_all
  have "pad4 a < pad4 b \<longleftrightarrow>
          (a div 100 < b div 100 \<or> a div 100 = b div 100 \<and> a mod 100 < b mod 100)"
    using da db
    by (simp add: pad4_def append_less_same_length length_pad2 pad2_less_iff pad2_eq_iff)
  then show ?thesis using divmod_less_iff [of a b 100] by simp
qed

lemma pad4_eq_iff:
  assumes "a < 10000" "b < 10000"
  shows "pad4 a = pad4 b \<longleftrightarrow> a = b"
proof -
  have da: "a div 100 < 100" "a mod 100 < 100" and db: "b div 100 < 100" "b mod 100 < 100"
    using assms by simp_all
  have "pad4 a = pad4 b \<longleftrightarrow> (a div 100 = b div 100 \<and> a mod 100 = b mod 100)"
    using da db by (simp add: pad4_def length_pad2 pad2_eq_iff)
  then show ?thesis using divmod_eq_iff [of a b 100] by simp
qed

lemma length_pad4: "length (pad4 n) = 4"
  by (simp add: pad4_def length_pad2)

lemma period_str_less_iff:
  assumes "d_year d1 < 10000" "d_year d2 < 10000" "d_month d1 < 100" "d_month d2 < 100"
  shows "period_str d1 < period_str d2 \<longleftrightarrow> (d_year d1, d_month d1) < (d_year d2, d_month d2)"
  using assms
  by (auto simp add: period_str_def append_less_same_length length_pad4 pad4_less_iff
      pad4_eq_iff pad2_less_iff less_prod_def)

lemma period_str_eq_iff:
  assumes "d_year d1 < 10000" "d_year d2 < 10000" "d_month d1 < 100" "d_month d2 < 100"
  shows "period_str d1 = period_str d2 \<longleftrightarrow> d_year d1 = d_year d2 \<and> d_month d1 = d_month d2"
  using assms
  by (simp add: period_str_def length_pad4 pad4_eq_iff pad2_eq_iff)

subsection \<open>Monthly trend of one period\<close>

lemma sort_remdups_map_mono:
  fixes f :: "'a::linorder \<Rightarrow> 'b::linorder"
  assumes mono: "\<And>x y. x \<in> set xs \<Longrightarrow> y \<in> set xs \<Longrightarrow> f x < f y \<longleftrightarrow> x < y"
  shows "sort (remdups (map f xs)) = map f (sort (remdups xs))"
proof (rule sorted_distinct_set_unique)
  show "sorted (sort (remdups (map f xs)))" by simp
  show "distinct (sort (remdups (map f xs)))" by simp
  have le: "f x \<le> f y" if "x \<in> set xs" "y \<in> set xs" "x \<le> y" for x y
    using mono [of y x] that by (simp add: not_less [symmetric])
  have "sorted_wrt (\<lambda>x y. f x \<le> f y) (sort (remdups xs))"
  proof (rule sorted_wrt_mono_rel [of _ "(\<le>)"])
    show "sorted_wrt (\<le>) (sort (remdups xs))" by simp
  next
    fix x y
    assume "x \<in> set (sort (remdups xs))" "y \<in> set (sort (remdups xs))" "x \<le> y"
    then show "f x \<le> f y" using le by simp
  qed
  then show "sorted (map f (sort (remdups xs)))"
    by (simp add: sorted_map)
  have "inj_on f (set xs)"
  proof (rule inj_onI)
    fix x y
    assume xy: "x \<in> set xs" "y \<in> set xs" "f x = f y"
    then have "\<not> x < y" "\<not> y < x" using mono [of x y] mono [of y x] by simp_all
    then show "x = y" by simp
  qed
  then show "distinct (map f (sort (remdups xs)))"
    by (simp add: distinct_map)
  show "set (sort (remdups (map f xs))) = set (map f (sort (remdups xs)))"
    by simp
qed

lemma well_formed_fields:
  assumes "well_formed r"
  shows "month_year r = period_str (date r)" "year r = d_year (date r)"
    "month_num r = d_month (date r)" "d_year (date r) < 10000" "d_month (date r) < 100"
proof -
  from assms have r: "r = derive \<lparr> raw_date = date r, raw_store = store r, raw_sales = sales r \<rparr>"
    and v: "valid_date (date r)"
    by (simp_all add: well_formed_def)
  show "month_year r = period_str (date r)" by (subst r) (simp add: derive_def)
  show "year r = d_year (date r)" by (subst r) (simp add: derive_def)
  show "month_num r = d_month (date r)" by (subst r) (simp add: derive_def)
  from v show "d_year (date r) < 10000" "d_month (date r) < 100"
    by (simp_all add: valid_date_def)
qed

lemma well_formed_derive:
  "valid_date (raw_date x) \<Longrightarrow> well_formed (derive x)"
  by (simp add: well_formed_def derive_def)

lemma well_formed_load_data:
  "\<forall>x \<in> set raws. valid_date (raw_date x) \<Longrightarrow> \<forall>r \<in> set (load_data raws). well_formed r"
  by (simp add: load_data_def well_formed_derive)

lemma well_formed_subsets:
  assumes "\<forall>r \<in> set df. well_formed r"
  shows "\<forall>r \<in> set (df_period_1 df ui). well_formed r"
  using assms by (simp add: df_period_1_def filter_stores_def filter_period_def)

lemma period_str_month_start: "period_str (month_start d) = period_str d"
  by (simp add: period_str_def month_start_def d_year_def d_month_def)

lemma month_start_less_iff:
  "month_start d1 < month_start d2 \<longleftrightarrow> (d_year d1, d_month d1) < (d_year d2, d_month d2)"
  by (auto simp add: month_start_def less_prod_def less_eq_prod_def)

lemma month_year_less_iff:
  assumes "well_formed r" "well_formed r'"
  shows "month_year r < month_year r' \<longleftrightarrow> (year r, month_num r) < (year r', month_num r')"
  using period_str_less_iff [of "date r" "date r'"] well_formed_fields [OF assms(1)]
    well_formed_fields [OF assms(2)]
  by simp

lemma month_year_eq_iff:
  assumes "well_formed r" "well_formed r'"
  shows "month_year r = month_year r' \<longleftrightarrow> year r = year r' \<and> month_num r = month_num r'"
  using period_str_eq_iff [of "date r" "date r'"] well_formed_fields [OF assms(1)]
    well_formed_fields [OF assms(2)]
  by simp

lemma plot_df_single_labels:
  assumes "\<forall>r \<in> set df. well_formed r"
  shows "map fst (plot_df_single df) =
           map period_str (sort (remdups (map (\<lambda>r. month_start (date r)) df)))"
proof -
  have eq: "map month_year df = map period_str (map (\<lambda>r. month_start (date r)) df)"
    using assms by (simp add: well_formed_fields(1) period_str_month_start)
  have "map fst (plot_df_single df) = sort (remdups (map month_year df))"
    by (simp add: plot_df_single_def map_fst_groupby_agg group_keys_def)
  also have "\<dots> = sort (remdups (map period_str (map (\<lambda>r. month_start (date r)) df)))"
    by (simp only: eq)
  also have "\<dots> = map period_str (sort (remdups (map (\<lambda>r. month_start (date r)) df)))"
  proof (rule sort_remdups_map_mono)
    fix x y
    assume "x \<in> set (map (\<lambda>r. month_start (date r)) df)"
      and "y \<in> set (map (\<lambda>r. month_start (date r)) df)"
    then obtain r r' where r: "r \<in> set df" "x = month_start (date r)"
      and r': "r' \<in> set df" "y = month_start (date r')"
      by auto
    from r r' assms have wf: "well_formed r" "well_formed r'" by simp_all
    have "period_str x < period_str y \<longleftrightarrow> period_str (date r) < period_str (date r')"
      by (simp add: r r' period_str_month_start)
    also have "\<dots> \<longleftrightarrow> (d_year (date r), d_month (date r)) < (d_year (date r'), d_month (date r'))"
      using well_formed_fields [OF wf(1)] well_formed_fields [OF wf(2)]
      by (simp add: period_str_less_iff)
    also have "\<dots> \<longleftrightarrow> x < y"
      by (simp add: r r' month_start_less_iff)
    finally show "period_str x < period_str y \<longleftrightarrow> x < y" .
  qed
  finally show ?thesis .
qed

lemma plot_df_single_sums:
  assumes "p \<in> set (plot_df_single df)"
  shows "snd p = sum_sales (filter (\<lambda>r. month_year r = fst p) df)"
  using assms by (auto simp: plot_df_single_def groupby_agg_def)

lemma two_years_rows:
  "two_years_df =
     [\<lparr> date = (2024, 1, 9), store = ''A'', sales = 10, year = 2024, month_num = 1,
         day_of_week = ''Tuesday'', month_name = ''Jan'', month_year = ''2024-01'' \<rparr>,
      \<lparr> date = (2023, 1, 9), store = ''A'', sales = 1, year = 2023, month_num = 1,
         day_of_week = ''Monday'', month_name = ''Jan'', month_year = ''2023-01'' \<rparr>,
      \<lparr> date = (2023, 12, 5), store = ''B'', sales = 7, year = 2023, month_num = 12,
         day_of_week = ''Tuesday'', month_name = ''Dec'', month_year = ''2023-12'' \<rparr>]"
  by (simp add: two_years_df_def mk_row_def derive_def day_name_def ymd2ord_def
      days_before_year_def days_before_month_def upt_rec d_year_def d_month_def d_day_def
      ordered_days_def days_in_month_def is_leap_def strftime_b_def month_abbrs_def
      period_str_def pad4_def pad2_def digit_def)

lemma two_years_well_formed: "\<forall>r \<in> set two_years_df. well_formed r"
  by (simp add: two_years_df_def mk_row_def well_formed_derive valid_date_def d_year_def
      d_month_def d_day_def days_in_month_def is_leap_def)

text \<open>
  C10. With compare mode off, the monthly trend sums the sales grouped by the year-month
  label: it has one point per label that occurs, holding the sum of the sales of the rows
  with that label. On rows as the loader builds them, two rows have the same label exactly
  when they agree in year and in month, so the same month of two different years gives two
  points; and the labels compare as strings the way their (year, month) pairs compare, so
  the points are the months that occur, in chronological order.
\<close>

theorem C10_monthly_evolution:
  "\<forall>r \<in> set df1. well_formed r \<Longrightarrow>
     monthly_trend False df1 df2 = Monthly_evolution (plot_df_single df1) \<and>
     map fst (plot_df_single df1) = sort (remdups (map month_year df1)) \<and>
     (\<forall>p \<in> set (plot_df_single df1). snd p = sum_sales (filter (\<lambda>r. month_year r = fst p) df1)) \<and>
     (\<forall>r \<in> set df1. \<forall>r' \<in> set df1.
        (month_year r = month_year r' \<longleftrightarrow> year r = year r' \<and> month_num r = month_num r') \<and>
        (month_year r < month_year r' \<longleftrightarrow> (year r, month_num r) < (year r', month_num r'))) \<and>
     map fst (plot_df_single df1) =
       map period_str (sort (remdups (map (\<lambda>r. month_start (date r)) df1)))"
proof -
  assume wf: "\<forall>r \<in> set df1. well_formed r"
  have 1: "monthly_trend False df1 df2 = Monthly_evolution (plot_df_single df1)"
    by (simp add: monthly_trend_def)
  have 2: "map fst (plot_df_single df1) = sort (remdups (map month_year df1))"
    by (simp add: plot_df_single_def map_fst_groupby_agg group_keys_def)
  have 3: "\<forall>p \<in> set (plot_df_single df1).
      snd p = sum_sales (filter (\<lambda>r. month_year r = fst p) df1)"
    using plot_df_single_sums [of _ df1] by blast
  have 4: "\<forall>r \<in> set df1. \<forall>r' \<in> set df1.
        (month_year r = month_year r' \<longleftrightarrow> year r = year r' \<and> month_num r = month_num r') \<and>
        (month_year r < month_year r' \<longleftrightarrow> (year r, month_num r) < (year r', month_num r'))"
    using wf month_year_eq_iff month_year_less_iff by blast
  from 1 2 3 4 plot_df_single_labels [OF wf] show ?thesis
    by blast
qed

theorem C10_monthly_evolution_witness:
  "list_all well_formed two_years_df \<and>
   map month_num two_years_df = [1, 1, 12] \<and>
   monthly_trend False two_years_df [] =
     Monthly_evolution [(''2023-01'', 1), (''2023-12'', 7), (''2024-01'', 10)] \<and>
   sort (remdups (map (\<lambda>r. month_start (date r)) two_years_df)) =
     [(2023, 1, 1), (2023, 12, 1), (2024, 1, 1)] \<and>
   map tr_sales (monthly_sales two_years_df ''Main'') = [11, 7]"
proof -
  note a = C10_monthly_evolution [OF two_years_well_formed, of "[]"]
  have 1: "list_all well_formed two_years_df"
    using two_years_well_formed by (simp add: list_all_iff)
  have 2: "map month_num two_years_df = [1, 1, 12]"
    by (simp add: two_years_rows)
  have 3: "plot_df_single two_years_df = [(''2023-01'', 1), (''2023-12'', 7), (''2024-01'', 10)]"
    by (simp add: two_years_rows plot_df_single_def groupby_agg_def group_keys_def sum_sales_def)
  from a 3 have 4: "monthly_trend False two_years_df [] =
     Monthly_evolution [(''2023-01'', 1), (''2023-12'', 7), (''2024-01'', 10)]"
    by simp
  have 5: "sort (remdups (map (\<lambda>r. month_start (date r)) two_years_df)) =
     [(2023, 1, 1), (2023, 12, 1), (2024, 1, 1)]"
    by (simp add: two_years_rows month_start_def d_year_def d_month_def less_eq_prod_def
        less_prod_def)
  have 6: "map tr_sales (monthly_sales two_years_df ''Main'') = [11, 7]"
    by (simp add: two_years_rows monthly_sales_def groupby_agg_def group_keys_def sum_sales_def
        less_eq_prod_def less_prod_def)
  from 1 2 4 5 6 show ?thesis by blast
qed

subsection \<open>Data explorer\<close>

text \<open>
  The table holds the rows of \<open>df_display\<close>, one per row of the main-period subset, and
  is in descending order of the formatted date string.
\<close>

lemma mset_data_explorer: "mset (data_explorer df) = mset (df_display df)"
  by (simp add: data_explorer_def sort_values_desc_def)

lemma data_explorer_sorted: "sorted (rev (map dr_date (data_explorer df)))"
  by (simp add: data_explorer_def sort_values_desc_def rev_map)

lemma fmt_money_samples:
  "fmt_money 100 = ''$100'' \<and> fmt_money 1234.5 = ''$1,234'' \<and> fmt_money 1235.5 = ''$1,236''"
  by (simp add: fmt_money_def round_half_even_def Let_def digit_def)

lemma explorer_rows:
  "df_period_1 (load_data explorer_raw) explorer_ui =
     [\<lparr> date = (2024, 1, 31), store = ''StoreA'', sales = 100, year = 2024, month_num = 1,
         day_of_week = ''Wednesday'', month_name = ''Jan'', month_year = ''2024-01'' \<rparr>,
      \<lparr> date = (2024, 2, 1), store = ''StoreA'', sales = 1234.5, year = 2024, month_num = 2,
         day_of_week = ''Thursday'', month_name = ''Feb'', month_year = ''2024-02'' \<rparr>]"
  by (simp add: explorer_raw_def explorer_ui_def load_data_def df_period_1_def filter_stores_def
      filter_period_def between_def derive_def day_name_def ymd2ord_def
      days_before_year_def days_before_month_def upt_rec d_year_def d_month_def d_day_def
      ordered_days_def days_in_month_def is_leap_def strftime_b_def month_abbrs_def
      period_str_def pad4_def pad2_def digit_def less_eq_prod_def less_prod_def)

text \<open>
  C4. The rows of the data explorer are to be in descending order of date. The script
  formats the dates as day/month/year strings before it sorts, so the table is ordered
  by these strings: for a main period with the rows of 31 January 2024 and 1 February
  2024 the table shows 31/01/2024 first and 01/02/2024 second, the earlier date above the
  later one, which is not the descending order of the two dates.
\<close>

theorem C4_explorer_order:
  "map date (df_period_1 (load_data explorer_raw) explorer_ui) = [(2024, 1, 31), (2024, 2, 1)] \<and>
   map dr_date (data_explorer (df_period_1 (load_data explorer_raw) explorer_ui)) =
     [strftime_dmy (2024, 1, 31), strftime_dmy (2024, 2, 1)] \<and>
   map dr_date (data_explorer (df_period_1 (load_data explorer_raw) explorer_ui)) =
     [''31/01/2024'', ''01/02/2024''] \<and>
   ((2024, 1, 31) :: date) < (2024, 2, 1) \<and>
   \<not> sorted (rev [(2024, 1, 31) :: date, (2024, 2, 1)])"
  by (simp add: explorer_rows data_explorer_def sort_values_desc_def df_display_def
      strftime_dmy_def pad4_def pad2_def digit_def d_year_def d_month_def d_day_def
      less_eq_prod_def less_prod_def)

subsection \<open>Composition\<close>

text \<open>Sums of an \<open>int64\<close> column are the exact sums, wrapped around once at the end.\<close>

lemma wrap64_cong: "(a - b) mod 2 ^ 64 = 0 \<Longrightarrow> wrap64 a = wrap64 b"
proof -
  assume "(a - b) mod 2 ^ 64 = 0"
  then have "(a + 2 ^ 63 - (b + 2 ^ 63)) mod 2 ^ 64 = 0" by simp
  then have "(a + 2 ^ 63) mod 2 ^ 64 = (b + 2 ^ 63) mod 2 ^ 64"
    by (rule mod_eq_0_iff_dvd [THEN iffD1, THEN mod_eq_dvd_iff [THEN iffD2]])
  then show ?thesis by (simp add: wrap64_def)
qed

lemma wrap64_diff: "(wrap64 a - a) mod 2 ^ 64 = 0"
proof -
  have "wrap64 a - a = (a + 2 ^ 63) mod 2 ^ 64 - (a + 2 ^ 63)" by (simp add: wrap64_def)
  also have "\<dots> = - (2 ^ 64 * ((a + 2 ^ 63) div 2 ^ 64))"
    by (simp add: minus_mult_div_eq_mod [symmetric])
  finally show ?thesis by simp
qed

lemma wrap64_add_left: "wrap64 (wrap64 a + b) = wrap64 (a + b)"
proof (rule wrap64_cong)
  have "wrap64 a + b - (a + b) = wrap64 a - a" by simp
  then show "(wrap64 a + b - (a + b)) mod 2 ^ 64 = 0" by (simp only: wrap64_diff)
qed

lemma wrap64_add_right: "wrap64 (a + wrap64 b) = wrap64 (a + b)"
  using wrap64_add_left [of b a] by (simp add: add.commute)

lemma wrap64_sub_left: "wrap64 (wrap64 a - b) = wrap64 (a - b)"
  using wrap64_add_left [of a "- b"] by simp

lemma wrap64_0: "wrap64 0 = 0"
  by (simp add: wrap64_def)

lemma wrap64_shift: "\<exists>k. wrap64 a = a + 2 ^ 64 * k"
proof
  show "wrap64 a = a + 2 ^ 64 * (- ((a + 2 ^ 63) div 2 ^ 64))"
    by (simp add: wrap64_def minus_mult_div_eq_mod [symmetric])
qed

lemma wrap64_multiple: "wrap64 (2 ^ 64 * k) = 0"
  using wrap64_cong [of "2 ^ 64 * k" 0] by (simp add: wrap64_0)

lemma kahan_step_int64:
  "kahan_step Int64 (Some (of_int (wrap64 s), 0)) v = Some (of_int (wrap64 (s + \<lfloor>v\<rfloor>)), 0)"
proof -
  let ?v = "\<lfloor>v\<rfloor>"
  obtain k1 where k1: "wrap64 (s + ?v) = s + ?v + 2 ^ 64 * k1" using wrap64_shift by blast
  obtain k2 where k2: "wrap64 s = s + 2 ^ 64 * k2" using wrap64_shift by blast
  obtain k3 where k3: "wrap64 ?v = ?v + 2 ^ 64 * k3" using wrap64_shift by blast
  obtain k4 where k4: "wrap64 (wrap64 (s + ?v) - wrap64 s) =
      wrap64 (s + ?v) - wrap64 s + 2 ^ 64 * k4" using wrap64_shift by blast
  have "wrap64 (wrap64 (s + ?v) - wrap64 s) - wrap64 ?v = 2 ^ 64 * (k1 - k2 + k4 - k3)"
    unfolding k4 unfolding k1 k2 k3 by (simp add: algebra_simps)
  then have c: "wrap64 (wrap64 (wrap64 (s + ?v) - wrap64 s) - wrap64 ?v) = 0"
    by (simp only: wrap64_multiple)
  have t: "wrap64 (wrap64 s + wrap64 ?v) = wrap64 (s + ?v)"
    by (simp only: wrap64_add_left wrap64_add_right)
  show ?thesis
    by (simp add: kahan_step_def m_add_def m_sub_def c t)
qed

lemma foldl_kahan_int64:
  "foldl (kahan_step Int64) (Some (of_int (wrap64 s), 0)) xs =
     Some (of_int (wrap64 (s + sum_list (map floor xs))), 0)"
proof (induction xs arbitrary: s)
  case Nil
  then show ?case by simp
next
  case (Cons v vs)
  then show ?case by (simp add: kahan_step_int64 add.assoc)
qed

lemma group_sum_int64:
  "group_sum Int64 xs = Some (of_int (wrap64 (sum_list (map floor xs))))"
  using foldl_kahan_int64 [of 0 xs] by (simp add: group_sum_def wrap64_0)

lemma loop_sum_int64_aux:
  "loop_sum Int64 (Some (of_int (wrap64 s))) xs =
     Some (of_int (wrap64 (s + sum_list (map floor xs))))"
proof (induction xs arbitrary: s)
  case Nil
  then show ?case by (simp add: loop_sum_def)
next
  case (Cons v vs)
  have "add_opt Int64 (Some (of_int (wrap64 s))) (Some v) = Some (of_int (wrap64 (s + \<lfloor>v\<rfloor>)))"
    by (simp add: add_opt_def m_add_def wrap64_add_left)
  with Cons [of "s + \<lfloor>v\<rfloor>"] show ?case
    by (simp add: loop_sum_def add.assoc)
qed

lemma series_sum_int64:
  "series_sum Int64 xs = Some (of_int (wrap64 (sum_list (map floor xs))))"
  using loop_sum_int64_aux [of 0 xs] by (simp add: series_sum_def wrap64_0)

lemma wrap64_sum_list:
  "wrap64 (sum_list (map (\<lambda>k. wrap64 (f k)) ks)) = wrap64 (sum_list (map f ks))"
proof (induction ks)
  case Nil
  then show ?case by simp
next
  case (Cons k ks)
  have "wrap64 (wrap64 (f k) + sum_list (map (\<lambda>k. wrap64 (f k)) ks)) =
        wrap64 (f k + wrap64 (sum_list (map (\<lambda>k. wrap64 (f k)) ks)))"
    by (simp only: wrap64_add_left wrap64_add_right)
  also have "\<dots> = wrap64 (f k + wrap64 (sum_list (map f ks)))"
    by (simp only: Cons.IH)
  also have "\<dots> = wrap64 (f k + sum_list (map f ks))"
    by (simp only: wrap64_add_right)
  finally show ?case by simp
qed

lemma those_map_Some: "those (map (\<lambda>k. Some (f k)) ks) = Some (map f ks)"
  by (induction ks) simp_all

lemma sum_list_groups:
  fixes f :: "'r \<Rightarrow> 'v::comm_monoid_add"
  shows "sum_list (map (\<lambda>k. sum_list (map f (filter (\<lambda>r. key r = k) df))) (group_keys key df)) =
         sum_list (map f df)"
proof -
  have "sum_list (map (\<lambda>k. sum_list (map f (filter (\<lambda>r. key r = k) df))) (group_keys key df)) =
        (\<Sum>k\<in>set (group_keys key df). sum_list (map f (filter (\<lambda>r. key r = k) df)))"
    by (rule sum_list_distinct_conv_sum_set) (rule distinct_group_keys)
  also have "\<dots> = sum_list (map f df)"
    by (rule sum_groups) (simp_all add: set_group_keys)
  finally show ?thesis .
qed

lemma store_sales_int64_total:
  "series_sum_results Int64 (map snd (store_sales Int64 df)) = series_sum Int64 (map sales df)"
proof -
  let ?G = "\<lambda>k. sum_list (map (\<lambda>r. \<lfloor>sales r\<rfloor>) (filter (\<lambda>r. store r = k) df))"
  have vals: "map snd (store_sales Int64 df) =
      map (\<lambda>k. Some (real_of_int (wrap64 (?G k)))) (group_keys store df)"
    by (simp add: store_sales_def groupby_agg_def group_sum_int64 comp_def)
  have "series_sum_results Int64 (map snd (store_sales Int64 df)) =
        series_sum Int64 (map (\<lambda>k. real_of_int (wrap64 (?G k))) (group_keys store df))"
    unfolding vals series_sum_results_def those_map_Some by simp
  also have "\<dots> = Some (of_int (wrap64 (sum_list (map (\<lambda>k. wrap64 (?G k)) (group_keys store df)))))"
    by (simp add: series_sum_int64 comp_def)
  also have "wrap64 (sum_list (map (\<lambda>k. wrap64 (?G k)) (group_keys store df))) =
      wrap64 (sum_list (map ?G (group_keys store df)))"
    by (rule wrap64_sum_list)
  also have "sum_list (map ?G (group_keys store df)) = sum_list (map (\<lambda>r. \<lfloor>sales r\<rfloor>) df)"
    by (rule sum_list_groups)
  also have "Some (real_of_int (wrap64 (sum_list (map (\<lambda>r. \<lfloor>sales r\<rfloor>) df)))) =
      series_sum Int64 (map sales df)"
    by (simp add: series_sum_int64 comp_def)
  finally show ?thesis .
qed

text \<open>The groups of a frame hold every row of it exactly once.\<close>

lemma groups_partition:
  assumes "distinct ks" "key ` set df \<subseteq> set ks"
  shows "mset (concat (map (\<lambda>k. filter (\<lambda>r. key r = k) df) ks)) = mset df"
  using assms
proof (induction ks arbitrary: df)
  case Nil
  then show ?case by simp
next
  case (Cons k ks)
  let ?rest = "filter (\<lambda>r. key r \<noteq> k) df"
  from Cons.prems have k: "k \<notin> set ks" and d: "distinct ks" by simp_all
  have sub: "key ` set ?rest \<subseteq> set ks" using Cons.prems(2) by auto
  have same: "map (\<lambda>k'. filter (\<lambda>r. key r = k') df) ks =
      map (\<lambda>k'. filter (\<lambda>r. key r = k') ?rest) ks"
  proof (rule map_cong [OF refl])
    fix k' assume "k' \<in> set ks"
    with k have "k' \<noteq> k" by auto
    then have "(\<lambda>r. key r \<noteq> k \<and> key r = k') = (\<lambda>r. key r = k')" by auto
    then show "filter (\<lambda>r. key r = k') df = filter (\<lambda>r. key r = k') ?rest"
      by simp
  qed
  have "mset (concat (map (\<lambda>k. filter (\<lambda>r. key r = k) df) (k # ks))) =
        mset (filter (\<lambda>r. key r = k) df) + mset ?rest"
    using Cons.IH [OF d sub] by (simp add: same)
  also have "\<dots> = mset df" by simp
  finally show ?case .
qed

text \<open>The binary64 sums of the sample column, operation by operation.\<close>

lemma f64_cells:
  "f64_round (1 / 10) = 3602879701896397 / 36028797018963968"
  "f64_round (1 / 5) = 3602879701896397 / 18014398509481984"
  "f64_round (3 / 10) = 5404319552844595 / 18014398509481984"
  "f64_round (11 / 10) = 2476979795053773 / 2251799813685248"
  by (simp_all add: f64_round_def ilog2_def pow2_def round_half_even_def Let_def)

lemmas f64_eval = f64_result_def f64_round_def f64_max_def ilog2_def pow2_def round_half_even_def
  Let_def m_add_def m_sub_def add_opt_def

lemma kahan_stepI:
  assumes "m_sub dt val compensation = Some y" "m_add dt sumx y = Some t"
    "m_sub dt t sumx = Some d" "m_sub dt d y = Some c"
  shows "kahan_step dt (Some (sumx, compensation)) val = Some (t, c)"
  using assms by (simp add: kahan_step_def)

lemma cents_group_A_step_1:
  "kahan_step Float64 (Some (0, 0)) (3602879701896397 / 36028797018963968) =
     Some (3602879701896397 / 36028797018963968, 0)"
  by (rule kahan_stepI [where y = "3602879701896397 / 36028797018963968" and d = "3602879701896397 / 36028797018963968"]) (simp_all add: f64_eval)

lemma cents_group_A_step_2:
  "kahan_step Float64 (Some (3602879701896397 / 36028797018963968, 0)) (5404319552844595 / 18014398509481984) =
     Some (3602879701896397 / 9007199254740992, 1 / 18014398509481984)"
  by (rule kahan_stepI [where y = "5404319552844595 / 18014398509481984" and d = "1351079888211149 / 4503599627370496"]) (simp_all add: f64_eval)

lemma cents_group_A_step_3:
  "kahan_step Float64 (Some (3602879701896397 / 9007199254740992, 1 / 18014398509481984)) (2476979795053773 / 2251799813685248) =
     Some (3 / 2, 0)"
  by (rule kahan_stepI [where y = "2476979795053773 / 2251799813685248" and d = "2476979795053773 / 2251799813685248"]) (simp_all add: f64_eval)

lemma cents_group_A:
  "group_sum Float64 [3602879701896397 / 36028797018963968, 5404319552844595 / 18014398509481984, 2476979795053773 / 2251799813685248] = Some (3 / 2)"
  unfolding group_sum_def foldl.simps cents_group_A_step_1 cents_group_A_step_2 cents_group_A_step_3 by simp

lemma cents_group_B_step_1:
  "kahan_step Float64 (Some (0, 0)) (3602879701896397 / 18014398509481984) =
     Some (3602879701896397 / 18014398509481984, 0)"
  by (rule kahan_stepI [where y = "3602879701896397 / 18014398509481984" and d = "3602879701896397 / 18014398509481984"]) (simp_all add: f64_eval)

lemma cents_group_B:
  "group_sum Float64 [3602879701896397 / 18014398509481984] = Some (3602879701896397 / 18014398509481984)"
  unfolding group_sum_def foldl.simps cents_group_B_step_1 by simp

lemma cents_sum_of_groups_add_1:
  "add_opt Float64 (Some 0) (Some (3 / 2)) = Some (3 / 2)"
  by (simp add: f64_eval)

lemma cents_sum_of_groups_add_2:
  "add_opt Float64 (Some (3 / 2)) (Some (3602879701896397 / 18014398509481984)) = Some (7656119366529843 / 4503599627370496)"
  by (simp add: f64_eval)

lemma cents_sum_of_groups:
  "series_sum Float64 [3 / 2, 3602879701896397 / 18014398509481984] = Some (7656119366529843 / 4503599627370496)"
  unfolding series_sum_def dtype.case pairwise_sum.simps [of "[3 / 2, 3602879701896397 / 18014398509481984]"] loop_sum_def
  by (simp add: cents_sum_of_groups_add_1 cents_sum_of_groups_add_2)

lemma cents_total_add_1:
  "add_opt Float64 (Some 0) (Some (3602879701896397 / 36028797018963968)) = Some (3602879701896397 / 36028797018963968)"
  by (simp add: f64_eval)

lemma cents_total_add_2:
  "add_opt Float64 (Some (3602879701896397 / 36028797018963968)) (Some (3602879701896397 / 18014398509481984)) = Some (1351079888211149 / 4503599627370496)"
  by (simp add: f64_eval)

lemma cents_total_add_3:
  "add_opt Float64 (Some (1351079888211149 / 4503599627370496)) (Some (5404319552844595 / 18014398509481984)) = Some (1351079888211149 / 2251799813685248)"
  by (simp add: f64_eval)

lemma cents_total_add_4:
  "add_opt Float64 (Some (1351079888211149 / 2251799813685248)) (Some (2476979795053773 / 2251799813685248)) = Some (1914029841632461 / 1125899906842624)"
  by (simp add: f64_eval)

lemma cents_total:
  "series_sum Float64 [3602879701896397 / 36028797018963968, 3602879701896397 / 18014398509481984, 5404319552844595 / 18014398509481984, 2476979795053773 / 2251799813685248] = Some (1914029841632461 / 1125899906842624)"
  unfolding series_sum_def dtype.case pairwise_sum.simps [of "[3602879701896397 / 36028797018963968, 3602879701896397 / 18014398509481984, 5404319552844595 / 18014398509481984, 2476979795053773 / 2251799813685248]"] loop_sum_def
  by (simp add: cents_total_add_1 cents_total_add_2 cents_total_add_3 cents_total_add_4)

lemma cents_rows:
  "map (\<lambda>r. (store r, sales r)) cents_df =
     [(''A'', 3602879701896397 / 36028797018963968), (''B'', 3602879701896397 / 18014398509481984),
      (''A'', 5404319552844595 / 18014398509481984), (''A'', 2476979795053773 / 2251799813685248)]"
  by (simp add: cents_df_def mk_row_def derive_def f64_cells)

lemma store_sales_rows:
  "store_sales dt df =
     map (\<lambda>s. (s, group_sum dt (map snd (filter (\<lambda>p. fst p = s) (map (\<lambda>r. (store r, sales r)) df)))))
       (sort (remdups (map fst (map (\<lambda>r. (store r, sales r)) df))))"
  by (simp add: store_sales_def groupby_agg_def group_keys_def filter_map comp_def)

lemma cents_store_sales:
  "store_sales Float64 cents_df =
     [(''A'', Some (3 / 2)), (''B'', Some (3602879701896397 / 18014398509481984))]"
  unfolding store_sales_rows cents_rows
  by (simp add: cents_group_A cents_group_B)

lemma seventeen_adds:
  "add_opt Float64 (Some 1) (Some 9) = Some 10"
  "add_opt Float64 (Some 2) (Some 10) = Some 12"
  "add_opt Float64 (Some 3) (Some 11) = Some 14"
  "add_opt Float64 (Some 4) (Some 12) = Some 16"
  "add_opt Float64 (Some 5) (Some 13) = Some 18"
  "add_opt Float64 (Some 6) (Some 14) = Some 20"
  "add_opt Float64 (Some 7) (Some 15) = Some 22"
  "add_opt Float64 (Some 8) (Some 16) = Some 24"
  "add_opt Float64 (Some 10) (Some 12) = Some 22"
  "add_opt Float64 (Some 14) (Some 16) = Some 30"
  "add_opt Float64 (Some 22) (Some 30) = Some 52"
  "add_opt Float64 (Some 18) (Some 20) = Some 38"
  "add_opt Float64 (Some 22) (Some 24) = Some 46"
  "add_opt Float64 (Some 38) (Some 46) = Some 84"
  "add_opt Float64 (Some 52) (Some 84) = Some 136"
  "add_opt Float64 (Some 136) (Some 17) = Some 153"
  by (simp_all add: f64_eval)

lemma series_sum_seventeen:
  "series_sum Float64 [1, 2, 3, 4, 5, 6, 7, 8, 9, 10, 11, 12, 13, 14, 15, 16, 17] = Some 153"
  unfolding series_sum_def dtype.case pairwise_sum.simps [of "[1, 2, 3, 4, 5, 6, 7, 8, 9, 10, 11, 12, 13, 14, 15, 16, 17]"]
  by (simp add: block_sum_def loop_sum_def Let_def seventeen_adds)

text \<open>
  C7, as amended. For every main-period subset, the composition has one entry per store
  that occurs, holding the sum of the sales of exactly that store's rows, and the groups
  of the stores hold every row of the subset exactly once (no row is counted twice and
  none is omitted). The per-store sums add up to the sum of the sales of all rows when
  the sums are exact: in exact arithmetic, and in the wrap-around arithmetic of an
  \<open>int64\<close> sales column, where the sum of a store is the exact sum of its cells
  wrapped around at 64 bits. The composition that a run renders is computed from the
  main-period subset alone, whatever the comparison subset and the compare mode are. The
  scenario's rows give 100 for StoreA and 50 for StoreB; the float cells 0.1, 0.3, 1.1 of
  a store A and 0.2 of a store B give 1.5 and 0.2.
\<close>

theorem C7_composition_amended:
  "map fst (store_sales dt df) = sort (remdups (map store df)) \<and>
   map_of (store_sales dt df) s =
     (if s \<in> store ` set df
      then Some (group_sum dt (map sales (filter (\<lambda>r. store r = s) df)))
      else None) \<and>
   mset (concat (map (\<lambda>s. filter (\<lambda>r. store r = s) df) (sort (remdups (map store df))))) =
     mset df \<and>
   sum_list (map (\<lambda>s. sum_list (map sales (filter (\<lambda>r. store r = s) df)))
     (sort (remdups (map store df)))) = sum_list (map sales df) \<and>
   series_sum_results Int64 (map snd (store_sales Int64 df)) = series_sum Int64 (map sales df) \<and>
   map_of (store_sales Int64 df) s =
     (if s \<in> store ` set df
      then Some (Some (real_of_int (wrap64
             (sum_list (map (\<lambda>r. \<lfloor>sales r\<rfloor>) (filter (\<lambda>r. store r = s) df))))))
      else None) \<and>
   store_sales Int64 scenario_df = [(''StoreA'', Some 100), (''StoreB'', Some 50)] \<and>
   store_sales Float64 cents_df =
     [(''A'', Some (3 / 2)), (''B'', Some (3602879701896397 / 18014398509481984))] \<and>
   v_composition (render dt cmp df1 df2) = store_sales dt df1"
proof -
  have 1: "map fst (store_sales dt df) = sort (remdups (map store df))"
    by (simp add: store_sales_def map_fst_groupby_agg group_keys_def)
  have 2: "map_of (store_sales dt df) s =
     (if s \<in> store ` set df
      then Some (group_sum dt (map sales (filter (\<lambda>r. store r = s) df)))
      else None)"
    by (simp add: store_sales_def map_of_groupby_agg)
  have 3: "mset (concat (map (\<lambda>s. filter (\<lambda>r. store r = s) df) (sort (remdups (map store df))))) =
     mset df"
    by (rule groups_partition) simp_all
  have 4: "sum_list (map (\<lambda>s. sum_list (map sales (filter (\<lambda>r. store r = s) df)))
     (sort (remdups (map store df)))) = sum_list (map sales df)"
    using sum_list_groups [of sales store df] by (simp add: group_keys_def)
  have 5: "v_composition (render dt cmp df1 df2) = store_sales dt df1"
    by (simp add: render_def)
  have 6: "map_of (store_sales Int64 df) s =
     (if s \<in> store ` set df
      then Some (Some (real_of_int (wrap64
             (sum_list (map (\<lambda>r. \<lfloor>sales r\<rfloor>) (filter (\<lambda>r. store r = s) df))))))
      else None)"
    by (simp add: store_sales_def map_of_groupby_agg group_sum_int64 comp_def)
  have 7: "store_sales Int64 scenario_df = [(''StoreA'', Some 100), (''StoreB'', Some 50)]"
    by (simp add: scenario_rows store_sales_def groupby_agg_def group_keys_def group_sum_int64
        wrap64_def)
  from 1 2 3 4 5 6 7 cents_store_sales store_sales_int64_total [of df] show ?thesis
    by blast
qed

text \<open>
  C7 as stated fails on a float column: for the rows (A, 0.1), (B, 0.2), (A, 0.3),
  (A, 1.1) the per-store sums are 1.5 and 0.2 and add up to the double 1.7, while the
  sales of all rows add up to the next double, 1.7000000000000002.
\<close>

theorem C7_composition_counterexample:
  "store_sales Float64 cents_df =
     [(''A'', Some (3 / 2)), (''B'', Some (3602879701896397 / 18014398509481984))] \<and>
   series_sum_results Float64 (map snd (store_sales Float64 cents_df)) =
     Some (7656119366529843 / 4503599627370496) \<and>
   series_sum Float64 (map sales cents_df) = Some (1914029841632461 / 1125899906842624) \<and>
   series_sum_results Float64 (map snd (store_sales Float64 cents_df)) \<noteq>
     series_sum Float64 (map sales cents_df)"
proof -
  have l: "series_sum_results Float64 (map snd (store_sales Float64 cents_df)) =
     Some (7656119366529843 / 4503599627370496)"
    unfolding cents_store_sales series_sum_results_def
    by (simp add: cents_sum_of_groups)
  have "map sales cents_df = map snd (map (\<lambda>r. (store r, sales r)) cents_df)"
    by (simp add: comp_def)
  then have r: "series_sum Float64 (map sales cents_df) =
      Some (1914029841632461 / 1125899906842624)"
    unfolding cents_rows by (simp add: cents_total)
  from l r cents_store_sales show ?thesis by simp
qed

subsection \<open>The end-to-end scenario\<close>

text \<open>
  The three rows of the scenario under the full date range and both stores: the subset
  keeps all three rows, the composition is 100 for StoreA and 50 for StoreB, and the
  typical performance is 100 for StoreA (its day without sales left out) and 50 for
  StoreB.
\<close>

lemma scenario_end_to_end:
  "df_period_1 scenario_df scenario_ui = scenario_df \<and>
   store_sales Int64 scenario_df = [(''StoreA'', Some 100), (''StoreB'', Some 50)] \<and>
   stats_table scenario_df = [(''StoreA'', Some 100, Some 100), (''StoreB'', Some 50, Some 50)]"
  by (simp add: scenario_rows scenario_ui_def df_period_1_def filter_stores_def filter_period_def
      between_def store_sales_def stats_table_def df_operating_days_def groupby_agg_def
      group_keys_def sum_sales_def mean_sales_def median_sales_def mean_def median_def
      less_eq_prod_def less_prod_def group_sum_int64 wrap64_def)

end
